theory Spec2Isabelle
  imports Complex_Main "HOL-Library.AList" "HOL-Library.Multiset"
begin

text \<open>
  An embedding of the layout and text-fitting functions of the schedule generator
  (\<open>daschedule.py\<close>): the two-line split and the font-size search, the day column, the
  X-day column, the fixed bands, the composition of the canvas and the normalizer of the
  class table. Functions that can raise return a sum, with the error on the left. The
  definitions come first; the properties follow, each claim of the specification under its
  number.
\<close>

section \<open>Python values used by the schedule generator\<close>

text \<open>
  A dictionary key of the period tables is either a Python \<open>int\<close> or a Python \<open>str\<close>;
  the two never compare equal (\<open>1 == "1"\<close> is false). A dictionary is the list of its
  items in insertion order. A string is the list of its code points, restricted here to the
  code points below 256 (one \<open>char\<close> each).
\<close>

datatype pykey = KInt int | KStr string

datatype error = KeyError pykey | IndexError | ValueError | TypeError

type_synonym 'v pydict = "(pykey \<times> 'v) list"

text \<open>\<open>d[k]\<close>: raises \<open>KeyError\<close> when the key is absent.\<close>

definition getitem :: "'v pydict \<Rightarrow> pykey \<Rightarrow> error + 'v" where
  "getitem d k = (case map_of d k of None \<Rightarrow> Inl (KeyError k) | Some v \<Rightarrow> Inr v)"

text \<open>\<open>xs[i]\<close> for a non-negative literal index: raises \<open>IndexError\<close> out of range.\<close>

definition index_list :: "'a list \<Rightarrow> nat \<Rightarrow> error + 'a" where
  "index_list xs i = (if i < length xs then Inr (xs ! i) else Inl IndexError)"

text \<open>\<open>str.isspace\<close> on one code point below 256, and \<open>str.strip()\<close>.\<close>

definition is_space :: "char \<Rightarrow> bool" where
  "is_space c = ((of_char c :: nat) \<in> set [9, 10, 11, 12, 13, 28, 29, 30, 31, 32, 133, 160])"

definition strip :: "string \<Rightarrow> string" where
  "strip s = rev (dropWhile is_space (rev (dropWhile is_space s)))"

text \<open>
  \<open>text.find(c, start)\<close> and \<open>text.rfind(c, start, end)\<close> for a one-character needle and
  non-negative bounds: the lowest (highest) index in the slice holding \<open>c\<close>, or \<open>-1\<close>.
\<close>

definition py_find :: "char \<Rightarrow> string \<Rightarrow> nat \<Rightarrow> int" where
  "py_find c text start =
     (case List.find (\<lambda>i. text ! i = c) [start..<length text] of
        None \<Rightarrow> - 1 | Some i \<Rightarrow> int i)"

definition py_rfind :: "char \<Rightarrow> string \<Rightarrow> nat \<Rightarrow> nat \<Rightarrow> int" where
  "py_rfind c text start end =
     (case List.find (\<lambda>i. text ! i = c) (rev [start..<min end (length text)]) of
        None \<Rightarrow> - 1 | Some i \<Rightarrow> int i)"

section \<open>Text splitting and fitting (daschedule.py)\<close>

text \<open>
  \<open>split_text_two_lines\<close>. The slices \<open>text[:split_pos]\<close> and \<open>text[split_pos+1:]\<close> are
  taken with \<open>split_pos >= 0\<close> only, since the case of two \<open>-1\<close> results returns before.
\<close>

definition split_text_two_lines :: "string \<Rightarrow> string list" where
  "split_text_two_lines text =
     (if CHR '' '' \<notin> set text then [text]
      else
        let mid = length text div 2;
            left_space = py_rfind (CHR '' '') text 0 mid;
            right_space = py_find (CHR '' '') text mid
        in if left_space = - 1 \<and> right_space = - 1 then [text]
           else
             let split_pos =
                   (if left_space = - 1 then right_space
                    else if right_space = - 1 then left_space
                    else if int mid - left_space \<le> right_space - int mid then left_space
                    else right_space);
                 line1 = strip (take (nat split_pos) text);
                 line2 = strip (drop (nat (split_pos + 1)) text)
             in [line1, line2])"

text \<open>
  \<open>measure_text_width(text, font_size, font_base64)\<close> asks the imaging library for the
  advance width of \<open>text\<close> in a font whose bytes live in \<open>fonts.py\<close>. Neither is part of
  the sources at hand, so the width function of the font in use is a parameter of
  everything below, named after the source function. Every caller uses the default font.
\<close>

type_synonym metrics = "string \<Rightarrow> int \<Rightarrow> real"

text \<open>\<open>all(measure_text_width(line, font_size, font_base64) <= max_width for line in lines)\<close>\<close>

definition lines_fit :: "metrics \<Rightarrow> string list \<Rightarrow> real \<Rightarrow> int \<Rightarrow> bool" where
  "lines_fit measure_text_width lines max_width font_size =
     list_all (\<lambda>line. measure_text_width line font_size \<le> max_width) lines"

text \<open>
  The \<open>while font_size >= min_size\<close> loop of \<open>fit_text_to_width\<close> together with the
  \<open>return min_size, ...\<close> after it, returning the size. The source has the loop twice, once
  over the two lines and once over the single text; the second is this one over \<open>[text]\<close>.
\<close>

function shrink_loop :: "metrics \<Rightarrow> string list \<Rightarrow> real \<Rightarrow> int \<Rightarrow> int \<Rightarrow> int" where
  "shrink_loop measure_text_width lines max_width min_size font_size =
     (if font_size \<ge> min_size then
        (if lines_fit measure_text_width lines max_width font_size then font_size
         else shrink_loop measure_text_width lines max_width min_size (font_size - 1))
      else min_size)"
  by pat_completeness auto
termination
  by (relation "measure (\<lambda>(m, ls, w, mn, fs). nat (fs - mn + 1))") auto

declare shrink_loop.simps [simp del]

text \<open>
  The second component of the tuple that \<open>fit_text_to_width\<close> returns is a list of lines or,
  on one path, an \<open>int\<close>: the statement
  \<open>return base_size, [text] if allow_split else base_size\<close> parses as
  \<open>return (base_size, ([text] if allow_split else base_size))\<close>.
\<close>

datatype fit_second = Lines "string list" | Size int

definition fit_text_to_width ::
  "metrics \<Rightarrow> string \<Rightarrow> real \<Rightarrow> int \<Rightarrow> int \<Rightarrow> bool \<Rightarrow> int \<times> fit_second" where
  "fit_text_to_width measure_text_width text max_width base_size min_size allow_split =
     (if measure_text_width text base_size \<le> max_width then
        (base_size, if allow_split then Lines [text] else Size base_size)
      else if allow_split \<and> CHR '' '' \<in> set text then
        (let lines = split_text_two_lines text
         in (shrink_loop measure_text_width lines max_width min_size base_size, Lines lines))
      else
        (shrink_loop measure_text_width [text] max_width min_size base_size, Lines [text]))"

section \<open>Layout constants\<close>

text \<open>
  The three band heights of lines 27 to 29 are the fields of a record, so that statements
  can range over every choice of them; \<open>shipped\<close> holds the values of the source. The
  derived X-day class height uses Python's true division, which for integer constants of
  ordinary size is exact; coordinates are real numbers throughout, and a product such as
  \<open>CLASS_HEIGHT*0.35\<close> stands for its exact value.
\<close>

record geometry =
  OTHER_HEIGHT :: int
  CLASS_HEIGHT :: int
  BREAK_HEIGHT :: int

definition shipped :: geometry where
  "shipped = \<lparr>OTHER_HEIGHT = 140, CLASS_HEIGHT = 250, BREAK_HEIGHT = 80\<rparr>"

definition XDAY_CLASS_HEIGHT :: "geometry \<Rightarrow> real" where
  "XDAY_CLASS_HEIGHT g =
     real_of_int ((OTHER_HEIGHT g * 3 + CLASS_HEIGHT g * 4 + BREAK_HEIGHT g * 2)
                  - (3 * BREAK_HEIGHT g) - (2 * OTHER_HEIGHT g)) / 8"

definition TITLE_HEIGHT :: int where "TITLE_HEIGHT = 100"
definition WIDTH :: int where "WIDTH = 450"
definition XDAY_GAP :: int where "XDAY_GAP = 65"
definition START_X :: int where "START_X = 200"
definition START_Y :: int where "START_Y = 200"
definition MAIN_OFFSET_X :: int where "MAIN_OFFSET_X = XDAY_GAP + (WIDTH * 2)"
definition MAIN_OFFSET_Y :: int where "MAIN_OFFSET_Y = TITLE_HEIGHT"
definition TIMES_OFFSET_X :: int where "TIMES_OFFSET_X = XDAY_GAP + WIDTH"
definition TIMES_OFFSET_Y :: int where "TIMES_OFFSET_Y = TITLE_HEIGHT"
definition XDAY_OFFSET_X :: int where "XDAY_OFFSET_X = 0"
definition XDAY_OFFSET_Y :: int where "XDAY_OFFSET_Y = TITLE_HEIGHT"
definition STROKE_WIDTH :: int where "STROKE_WIDTH = 4"
definition BASE_CLASS_TEXT_SIZE :: int where "BASE_CLASS_TEXT_SIZE = 50"
definition BASE_OTHER_TEXT_SIZE :: int where "BASE_OTHER_TEXT_SIZE = 40"
definition BASE_TIMES_TEXT_SIZE :: int where "BASE_TIMES_TEXT_SIZE = 45"
definition BASE_TITLE_TEXT_SIZE :: int where "BASE_TITLE_TEXT_SIZE = 150"
definition BASE_DAY_NUMBERS_TEXT_SIZE :: int where "BASE_DAY_NUMBERS_TEXT_SIZE = 100"
definition BASE_ROOM_SIZE :: int where "BASE_ROOM_SIZE = 30"
definition MAIN_FONT_FAMILY :: string where "MAIN_FONT_FAMILY = ''Inter''"
definition TITLE_FONT_FAMILY :: string where "TITLE_FONT_FAMILY = ''Jomhuria''"

definition CLASS_COLORS :: "string pydict" where
  "CLASS_COLORS =
     [(KInt 1, ''#91DCFA''), (KInt 2, ''#FEF59C''), (KInt 3, ''#FFC4E7''), (KInt 4, ''#E3B5FB''),
      (KInt 5, ''#FF9795''), (KInt 6, ''#A7F0D6''), (KInt 7, ''#FDC688''), (KInt 8, ''#CCCCCC'')]"

definition FULL_WIDTH :: int where "FULL_WIDTH = WIDTH * 6 + XDAY_GAP"
definition CANVAS_WIDTH :: int where "CANVAS_WIDTH = START_X * 2 + FULL_WIDTH"
definition CANVAS_HEIGHT :: "geometry \<Rightarrow> int" where
  "CANVAS_HEIGHT g =
     START_Y * 2 + (MAIN_OFFSET_Y + OTHER_HEIGHT g * 3 + CLASS_HEIGHT g * 4 + BREAK_HEIGHT g * 2)"

section \<open>Drawing primitives\<close>

datatype element =
    Rect (rect_x: real) (rect_y: real) (rect_width: real) (rect_height: real)
         (rect_stroke: "string option") (rect_fill: string) (rect_stroke_width: "int option")
  | Text (text_of: string) (text_x: real) (text_y: real) (text_anchor: string)
         (text_baseline: string) (text_font_size: int) (text_font_family: string)
         (text_fill: "string option")

text \<open>
  \<open>svg.Rect(..., stroke="black", fill=..., stroke_width=STROKE_WIDTH)\<close> and
  \<open>svg.Text(..., text_anchor="middle", dominant_baseline="central", ...)\<close>, the two shapes
  in which the drawing functions write almost every primitive.
\<close>

definition band :: "real \<Rightarrow> real \<Rightarrow> real \<Rightarrow> real \<Rightarrow> string \<Rightarrow> element" where
  "band x y width height fill = Rect x y width height (Some ''black'') fill (Some STROKE_WIDTH)"

definition centred :: "string \<Rightarrow> real \<Rightarrow> real \<Rightarrow> int \<Rightarrow> string \<Rightarrow> string option \<Rightarrow> element" where
  "centred txt x y sz family fill = Text txt x y ''middle'' ''central'' sz family fill"

text \<open>Sequencing of computations that may raise: the first error ends the computation.\<close>

definition bindE :: "error + 'a \<Rightarrow> ('a \<Rightarrow> error + 'b) \<Rightarrow> error + 'b" where
  "bindE m f = (case m of Inl e \<Rightarrow> Inl e | Inr v \<Rightarrow> f v)"

text \<open>\<open>str(n)\<close> for an \<open>int\<close>.\<close>

fun str_nat :: "nat \<Rightarrow> string" where
  "str_nat n =
     (if n < 10 then [char_of (48 + n)]
      else str_nat (n div 10) @ [char_of (48 + n mod 10)])"

definition py_str :: "int \<Rightarrow> string" where
  "py_str i = (if i < 0 then CHR ''-'' # str_nat (nat (- i)) else str_nat (nat i))"

section \<open>The day column (\<open>draw_day\<close>)\<close>

text \<open>
  The block that \<open>draw_day\<close> repeats for each of its four periods: the class name is looked
  up under the period number itself, fitted with \<open>allow_split=True\<close>, and drawn on two lines
  when the fitter returned two and on one line otherwise; the room and the teacher are
  looked up under \<open>str\<close> of the period number. The five vertical positions are what differs
  between the four copies. \<open>len(font_size[1])\<close> raises \<open>TypeError\<close> on an \<open>int\<close>.
\<close>

definition draw_day_period ::
  "metrics \<Rightarrow> int \<Rightarrow> string pydict \<Rightarrow> string pydict \<Rightarrow> string pydict \<Rightarrow>
   real \<Rightarrow> real \<Rightarrow> real \<Rightarrow> real \<Rightarrow> real \<Rightarrow> real \<Rightarrow> error + element list" where
  "draw_day_period measure_text_width period classes rooms teachers
       x_mid y_line1 y_line2 y_single y_room y_teacher =
     bindE (getitem classes (KInt period)) (\<lambda>text_content.
     let font_size = fit_text_to_width measure_text_width text_content
                       (real_of_int (WIDTH - 20)) BASE_CLASS_TEXT_SIZE 8 True
     in
     bindE (case snd font_size of
              Size n \<Rightarrow> Inl TypeError
            | Lines ls \<Rightarrow>
                if length ls = 2 then
                  Inr [centred (ls ! 0) x_mid y_line1 (fst font_size) MAIN_FONT_FAMILY None,
                       centred (ls ! 1) x_mid y_line2 (fst font_size) MAIN_FONT_FAMILY None]
                else
                  Inr [centred text_content x_mid y_single (fst font_size) MAIN_FONT_FAMILY None])
       (\<lambda>label.
     bindE (getitem rooms (KStr (py_str period))) (\<lambda>room.
     bindE (getitem teachers (KStr (py_str period))) (\<lambda>teacher.
     Inr (label @
          [centred room x_mid y_room BASE_ROOM_SIZE MAIN_FONT_FAMILY None,
           centred teacher x_mid y_teacher BASE_ROOM_SIZE MAIN_FONT_FAMILY None])))))"

definition draw_day ::
  "geometry \<Rightarrow> metrics \<Rightarrow> real \<Rightarrow> real \<Rightarrow> int list \<Rightarrow>
   string pydict \<Rightarrow> string pydict \<Rightarrow> string pydict \<Rightarrow> error + element list" where
  "draw_day g measure_text_width x y daily_classes classes rooms teachers =
     (let oh = real_of_int (OTHER_HEIGHT g); ch = real_of_int (CLASS_HEIGHT g);
          bh = real_of_int (BREAK_HEIGHT g); w = real_of_int WIDTH
      in
      bindE (index_list daily_classes 0) (\<lambda>p0.
      bindE (getitem CLASS_COLORS (KInt p0)) (\<lambda>fill0.
      bindE (index_list daily_classes 1) (\<lambda>p1.
      bindE (getitem CLASS_COLORS (KInt p1)) (\<lambda>fill1.
      bindE (index_list daily_classes 2) (\<lambda>p2.
      bindE (getitem CLASS_COLORS (KInt p2)) (\<lambda>fill2.
      bindE (index_list daily_classes 3) (\<lambda>p3.
      bindE (getitem CLASS_COLORS (KInt p3)) (\<lambda>fill3.
      bindE (draw_day_period measure_text_width p0 classes rooms teachers (x + w / 2)
               (y + oh + ch * 0.35) (y + oh + ch * 0.60) (y + oh + ch / 2)
               (y + oh + ch * 0.85) (y + oh + ch * 0.15)) (\<lambda>texts0.
      bindE (draw_day_period measure_text_width p1 classes rooms teachers (x + w / 2)
               (y + oh + (ch * 0.35) + ch + bh) (y + oh + (ch * 0.60) + ch + bh)
               (y + oh + (ch / 2) + ch + bh)
               (y + oh + bh + ch * 1.85) (y + oh + bh + ch * 1.15)) (\<lambda>texts1.
      bindE (draw_day_period measure_text_width p2 classes rooms teachers (x + w / 2)
               (y + (oh * 2) + (ch * 2.35) + bh) (y + (oh * 2) + (ch * 2.60) + bh)
               (y + (oh * 2) + (ch / 2) + (ch * 2) + bh)
               (y + (oh * 2) + bh + ch * 2.85) (y + (oh * 2) + bh + ch * 2.15)) (\<lambda>texts2.
      bindE (draw_day_period measure_text_width p3 classes rooms teachers (x + w / 2)
               (y + (oh * 2) + (ch * 3.35) + (bh * 2)) (y + (oh * 2) + (ch * 3.60) + (bh * 2))
               (y + (oh * 2) + (ch / 2) + (ch * 3) + (bh * 2))
               (y + (oh * 2) + (bh * 2) + ch * 3.85) (y + (oh * 2) + (bh * 2) + ch * 3.15))
            (\<lambda>texts3.
      Inr ([band x (y + oh) w ch fill0,
            band x (y + oh + ch + bh) w ch fill1,
            band x (y + (oh * 2) + (ch * 2) + bh) w ch fill2,
            band x (y + (oh * 2) + (ch * 3) + (bh * 2)) w ch fill3,
            band x (y + (oh * 2) + (ch * 4) + (bh * 2)) w oh ''#FFFFFF'']
           @ texts0 @ texts1 @ texts2 @ texts3))))))))))))))"

section \<open>The X-day column (\<open>draw_xday\<close>)\<close>

text \<open>\<open>needle in haystack\<close> on strings.\<close>

fun py_contains :: "string \<Rightarrow> string \<Rightarrow> bool" where
  "py_contains needle [] = (needle = [])"
| "py_contains needle (c # cs) =
     (take (length needle) (c # cs) = needle \<or> py_contains needle cs)"

text \<open>
  The dictionary comprehension at the head of \<open>draw_xday\<close> keeps every key and maps every
  value \<open>v\<close> to \<open>free_period_name if 'Foundations' in str(v) else v\<close>.
\<close>

definition rename_foundations :: "string \<Rightarrow> string \<Rightarrow> string" where
  "rename_foundations free_period_name v =
     (if py_contains ''Foundations'' v then free_period_name else v)"

definition substitute_foundations :: "string pydict \<Rightarrow> string \<Rightarrow> string pydict" where
  "substitute_foundations classes free_period_name =
     map (\<lambda>(k, v). (k, rename_foundations free_period_name v)) classes"

text \<open>
  A class name of the X-day column with its font size:
  \<open>fit_text_to_width(classes[k], WIDTH-20, base_size=BASE_CLASS_TEXT_SIZE)[0]\<close>.
\<close>

definition xday_label :: "metrics \<Rightarrow> string \<Rightarrow> real \<Rightarrow> real \<Rightarrow> element" where
  "xday_label measure_text_width name x y =
     centred name x y
       (fst (fit_text_to_width measure_text_width name (real_of_int (WIDTH - 20))
               BASE_CLASS_TEXT_SIZE 8 False))
       MAIN_FONT_FAMILY None"

definition draw_xday ::
  "geometry \<Rightarrow> metrics \<Rightarrow> real \<Rightarrow> real \<Rightarrow> string pydict \<Rightarrow> string \<Rightarrow> error + element list" where
  "draw_xday g measure_text_width x y classes0 free_period_name =
     (let oh = real_of_int (OTHER_HEIGHT g); bh = real_of_int (BREAK_HEIGHT g);
          xh = XDAY_CLASS_HEIGHT g; w = real_of_int WIDTH;
          classes = substitute_foundations classes0 free_period_name
      in
      bindE (getitem CLASS_COLORS (KInt 1)) (\<lambda>fill1.
      bindE (getitem CLASS_COLORS (KInt 2)) (\<lambda>fill2.
      bindE (getitem CLASS_COLORS (KInt 3)) (\<lambda>fill3.
      bindE (getitem CLASS_COLORS (KInt 4)) (\<lambda>fill4.
      bindE (getitem CLASS_COLORS (KInt 5)) (\<lambda>fill5.
      bindE (getitem CLASS_COLORS (KInt 6)) (\<lambda>fill6.
      bindE (getitem CLASS_COLORS (KInt 7)) (\<lambda>fill7.
      bindE (getitem CLASS_COLORS (KInt 8)) (\<lambda>fill8.
      bindE (getitem classes (KInt 1)) (\<lambda>name1.
      bindE (getitem classes (KInt 2)) (\<lambda>name2.
      bindE (getitem classes (KInt 3)) (\<lambda>name3.
      bindE (getitem classes (KInt 4)) (\<lambda>name4.
      bindE (getitem classes (KInt 5)) (\<lambda>name5.
      bindE (getitem classes (KInt 6)) (\<lambda>name6.
      bindE (getitem classes (KInt 7)) (\<lambda>name7.
      bindE (getitem classes (KInt 8)) (\<lambda>name8.
      Inr [band x y w oh ''#AB91FA'',
           band x (y + oh) w xh fill1,
           band x (y + oh + xh) w xh fill2,
           band x (y + oh + (xh * 2)) w bh ''#00B6FF'',
           band x (y + oh + (xh * 2) + bh) w xh fill3,
           band x (y + oh + (xh * 3) + bh) w xh fill4,
           band x (y + oh + (xh * 4) + bh) w bh ''#00B6FF'',
           band x (y + oh + (xh * 4) + (bh * 2)) w xh fill5,
           band x (y + oh + (xh * 5) + (bh * 2)) w oh ''#A8FA91'',
           band x (y + (oh * 2) + (xh * 5) + (bh * 2)) w xh fill6,
           band x (y + (oh * 2) + (xh * 6) + (bh * 2)) w xh fill7,
           band x (y + (oh * 2) + (xh * 7) + (bh * 2)) w bh ''#00B6FF'',
           band x (y + (oh * 2) + (xh * 7) + (bh * 3)) w xh fill8,
           centred ''Office Hours'' (x + w / 2) (y + (oh / 2))
             BASE_OTHER_TEXT_SIZE MAIN_FONT_FAMILY None,
           xday_label measure_text_width name1 (x + w / 2) (y + oh + (xh * 0.3)),
           centred ''8:30 - 9:10 a.m.'' (x + w / 2) (y + oh + (xh * 0.7))
             BASE_OTHER_TEXT_SIZE MAIN_FONT_FAMILY None,
           xday_label measure_text_width name2 (x + w / 2) (y + oh + xh + (xh * 0.3)),
           centred ''9:15 - 9:55 a.m.'' (x + w / 2) (y + oh + xh + (xh * 0.7))
             BASE_OTHER_TEXT_SIZE MAIN_FONT_FAMILY None,
           centred ''Break 9:55 - 10:05 a.m.'' (x + w / 2) (y + oh + (xh * 2) + (bh / 2))
             BASE_OTHER_TEXT_SIZE MAIN_FONT_FAMILY None,
           xday_label measure_text_width name3 (x + w / 2)
             (y + oh + (xh * 2) + bh + (xh * 0.3)),
           centred ''10:05 - 10:45 a.m.'' (x + w / 2) (y + oh + (xh * 2) + bh + (xh * 0.7))
             BASE_OTHER_TEXT_SIZE MAIN_FONT_FAMILY None,
           xday_label measure_text_width name4 (x + w / 2)
             (y + oh + (xh * 3) + bh + (xh * 0.3)),
           centred ''10:50 - 11:30 a.m.'' (x + w / 2) (y + oh + (xh * 3) + bh + (xh * 0.7))
             BASE_OTHER_TEXT_SIZE MAIN_FONT_FAMILY None,
           centred ''Break 11:30 - 11:40 a.m.'' (x + w / 2)
             (y + oh + (xh * 4) + bh + (bh / 2))
             BASE_OTHER_TEXT_SIZE MAIN_FONT_FAMILY None,
           xday_label measure_text_width name5 (x + w / 2)
             (y + oh + (xh * 4) + (bh * 2) + (xh * 0.3)),
           centred ''11:40 a.m. - 12:20 p.m.'' (x + w / 2)
             (y + oh + (xh * 4) + (bh * 2) + (xh * 0.7))
             BASE_OTHER_TEXT_SIZE MAIN_FONT_FAMILY None,
           centred ''Lunch'' (x + w / 2) (y + oh + (xh * 5) + (bh * 2) + (oh * 0.3))
             BASE_CLASS_TEXT_SIZE MAIN_FONT_FAMILY None,
           centred ''12:20 - 1:00 p.m.'' (x + w / 2)
             (y + oh + (xh * 5) + (bh * 2) + (oh * 0.7))
             BASE_OTHER_TEXT_SIZE MAIN_FONT_FAMILY None,
           xday_label measure_text_width name6 (x + w / 2)
             (y + (oh * 2) + (xh * 5) + (bh * 2) + (xh * 0.3)),
           centred ''1:00 - 1:40 p.m.'' (x + w / 2)
             (y + (oh * 2) + (xh * 5) + (bh * 2) + (xh * 0.7))
             BASE_OTHER_TEXT_SIZE MAIN_FONT_FAMILY None,
           xday_label measure_text_width name7 (x + w / 2)
             (y + (oh * 2) + (xh * 6) + (bh * 2) + (xh * 0.3)),
           centred ''1:45 - 2:25 p.m.'' (x + w / 2)
             (y + (oh * 2) + (xh * 6) + (bh * 2) + (xh * 0.7))
             BASE_OTHER_TEXT_SIZE MAIN_FONT_FAMILY None,
           centred ''Break 2:25 - 2:35 p.m.'' (x + w / 2)
             (y + (oh * 2) + (xh * 7) + (bh * 2) + (bh / 2))
             BASE_OTHER_TEXT_SIZE MAIN_FONT_FAMILY None,
           xday_label measure_text_width name8 (x + w / 2)
             (y + (oh * 2) + (xh * 7) + (bh * 3) + (xh * 0.3)),
           centred ''2:35 - 3:15 p.m.'' (x + w / 2)
             (y + (oh * 2) + (xh * 7) + (bh * 3) + (xh * 0.7))
             BASE_OTHER_TEXT_SIZE MAIN_FONT_FAMILY None])))))))))))))))))"

section \<open>The fixed parts of the canvas and the composition\<close>

definition draw_sames :: "geometry \<Rightarrow> real \<Rightarrow> real \<Rightarrow> element list" where
  "draw_sames g x y =
     (let oh = real_of_int (OTHER_HEIGHT g); ch = real_of_int (CLASS_HEIGHT g);
          bh = real_of_int (BREAK_HEIGHT g); w = real_of_int WIDTH
      in
      [band x y (w * 2) oh ''#AB91FA'',
       band (x + w * 2) y w oh ''#AB91FA'',
       band (x + w * 3) y w oh ''#AB91FA'',
       band x (y + oh + ch) (w * 4) bh ''#00B6FF'',
       band x (y + oh + (ch * 2) + bh) (w * 4) oh ''#A8FA91'',
       band x (y + (oh * 2) + (ch * 3) + bh) (w * 4) bh ''#00B6FF'',
       centred ''Office Hours'' (x + w) (y + (oh / 2))
         BASE_OTHER_TEXT_SIZE MAIN_FONT_FAMILY None,
       centred ''Faculty Meeting'' (x + w * 2.5) (y + (oh / 2))
         BASE_OTHER_TEXT_SIZE MAIN_FONT_FAMILY None,
       centred ''Office Hours'' (x + w * 3.5) (y + (oh / 2))
         BASE_OTHER_TEXT_SIZE MAIN_FONT_FAMILY None,
       centred ''Break'' (x + w * 2) (y + oh + ch + (bh / 2))
         BASE_OTHER_TEXT_SIZE MAIN_FONT_FAMILY None,
       centred ''Lunch'' (x + w * 2) (y + oh + (ch * 2) + bh + (oh / 2))
         BASE_CLASS_TEXT_SIZE MAIN_FONT_FAMILY None,
       centred ''Break'' (x + w * 2) (y + (oh * 2) + (ch * 3) + bh + (bh / 2))
         BASE_OTHER_TEXT_SIZE MAIN_FONT_FAMILY None,
       centred ''Flex 1 or Flex 3'' (x + w * 0.5)
         (y + (oh * 2) + (ch * 4) + (bh * 2) + (oh * 0.35))
         BASE_OTHER_TEXT_SIZE MAIN_FONT_FAMILY None,
       centred ''Advisory'' (x + w * 1.5)
         (y + (oh * 2) + (ch * 4) + (bh * 2) + (oh * 0.35))
         BASE_OTHER_TEXT_SIZE MAIN_FONT_FAMILY None,
       centred ''Flex 2 or Flex 4'' (x + w * 2.5)
         (y + (oh * 2) + (ch * 4) + (bh * 2) + (oh * 0.35))
         BASE_OTHER_TEXT_SIZE MAIN_FONT_FAMILY None,
       centred ''Assembly'' (x + w * 3.5)
         (y + (oh * 2) + (ch * 4) + (bh * 2) + (oh * 0.35))
         BASE_OTHER_TEXT_SIZE MAIN_FONT_FAMILY None,
       centred ''and or office hours'' (x + w * 0.5)
         (y + (oh * 2) + (ch * 4) + (bh * 2) + (oh * 0.65))
         BASE_OTHER_TEXT_SIZE MAIN_FONT_FAMILY None,
       centred ''and or office hours'' (x + w * 1.5)
         (y + (oh * 2) + (ch * 4) + (bh * 2) + (oh * 0.65))
         BASE_OTHER_TEXT_SIZE MAIN_FONT_FAMILY None,
       centred ''and or office hours'' (x + w * 2.5)
         (y + (oh * 2) + (ch * 4) + (bh * 2) + (oh * 0.65))
         BASE_OTHER_TEXT_SIZE MAIN_FONT_FAMILY None,
       centred ''and or office hours'' (x + w * 3.5)
         (y + (oh * 2) + (ch * 4) + (bh * 2) + (oh * 0.65))
         BASE_OTHER_TEXT_SIZE MAIN_FONT_FAMILY None])"

definition draw_times :: "geometry \<Rightarrow> real \<Rightarrow> real \<Rightarrow> element list" where
  "draw_times g x y =
     (let oh = real_of_int (OTHER_HEIGHT g); ch = real_of_int (CLASS_HEIGHT g);
          bh = real_of_int (BREAK_HEIGHT g); w = real_of_int WIDTH
      in
      [band x y w oh ''#888888'',
       band x (y + oh) w ch ''#888888'',
       band x (y + oh + ch) w bh ''#888888'',
       band x (y + oh + ch + bh) w ch ''#888888'',
       band x (y + oh + (ch * 2) + bh) w oh ''#888888'',
       band x (y + (oh * 2) + (ch * 2) + bh) w ch ''#888888'',
       band x (y + (oh * 2) + (ch * 3) + bh) w bh ''#888888'',
       band x (y + (oh * 2) + (ch * 3) + (bh * 2)) w ch ''#888888'',
       band x (y + (oh * 2) + (ch * 4) + (bh * 2)) w oh ''#888888'',
       centred ''7:50 - 8:20 a.m.'' (x + w / 2) (y + (oh / 2))
         BASE_TIMES_TEXT_SIZE MAIN_FONT_FAMILY (Some ''#FFFFFF''),
       centred ''8:30 - 9:45 a.m.'' (x + w / 2) (y + oh + (ch / 2))
         BASE_TIMES_TEXT_SIZE MAIN_FONT_FAMILY (Some ''#FFFFFF''),
       centred ''9:45 - 9:55 a.m.'' (x + w / 2) (y + oh + ch + (bh / 2))
         BASE_TIMES_TEXT_SIZE MAIN_FONT_FAMILY (Some ''#FFFFFF''),
       centred ''9:55 - 11:10 a.m.'' (x + w / 2) (y + oh + ch + bh + (ch / 2))
         BASE_TIMES_TEXT_SIZE MAIN_FONT_FAMILY (Some ''#FFFFFF''),
       centred ''11:10 - 11:50 a.m.'' (x + w / 2) (y + oh + (ch * 2) + bh + (oh / 2))
         BASE_TIMES_TEXT_SIZE MAIN_FONT_FAMILY (Some ''#FFFFFF''),
       centred ''11:50 a.m. - 1:05 p.m.'' (x + w / 2)
         (y + (oh * 2) + (ch * 2) + bh + (ch / 2))
         BASE_TIMES_TEXT_SIZE MAIN_FONT_FAMILY (Some ''#FFFFFF''),
       centred ''1:05 - 1:15 p.m.'' (x + w / 2) (y + (oh * 2) + (ch * 3) + bh + (bh / 2))
         BASE_TIMES_TEXT_SIZE MAIN_FONT_FAMILY (Some ''#FFFFFF''),
       centred ''1:15 - 2:30 p.m.'' (x + w / 2)
         (y + (oh * 2) + (ch * 3) + (bh * 2) + (ch / 2))
         BASE_TIMES_TEXT_SIZE MAIN_FONT_FAMILY (Some ''#FFFFFF''),
       centred ''2:30 - 3:15 p.m.'' (x + w / 2)
         (y + (oh * 2) + (ch * 4) + (bh * 2) + (oh / 2))
         BASE_TIMES_TEXT_SIZE MAIN_FONT_FAMILY (Some ''#FFFFFF'')])"

definition draw_titles :: "geometry \<Rightarrow> string \<Rightarrow> element list" where
  "draw_titles g title =
     (let w = real_of_int WIDTH; sx = real_of_int START_X;
          mx = real_of_int MAIN_OFFSET_X; top = real_of_int (START_Y + MAIN_OFFSET_Y)
      in
      [Rect 0 0 (real_of_int CANVAS_WIDTH) (real_of_int (CANVAS_HEIGHT g)) None ''#FFFFFF'' None,
       centred title (real_of_int CANVAS_WIDTH / 2) ((top * 0.85) / 2)
         BASE_TITLE_TEXT_SIZE TITLE_FONT_FAMILY None,
       centred ''X Day'' (sx + (w * 0.5)) (top * 0.85)
         BASE_DAY_NUMBERS_TEXT_SIZE TITLE_FONT_FAMILY None,
       centred ''Day 1'' (sx + mx + w * 0.5) (top * 0.85)
         BASE_DAY_NUMBERS_TEXT_SIZE TITLE_FONT_FAMILY None,
       centred ''Day 2'' (sx + mx + (w * 1.5)) (top * 0.85)
         BASE_DAY_NUMBERS_TEXT_SIZE TITLE_FONT_FAMILY None,
       centred ''Day 3'' (sx + mx + (w * 2.5)) (top * 0.85)
         BASE_DAY_NUMBERS_TEXT_SIZE TITLE_FONT_FAMILY None,
       centred ''Day 4'' (sx + mx + (w * 3.5)) (top * 0.85)
         BASE_DAY_NUMBERS_TEXT_SIZE TITLE_FONT_FAMILY None])"

text \<open>
  The \<open>elements=\<close> argument that \<open>create_svg\<close> builds, in the order of the source: the
  titles, the four day columns with their patterns, the shared bands, the times column,
  the X-day column. The serialisation of the canvas to text is not modelled.
\<close>

definition create_svg_elements ::
  "geometry \<Rightarrow> metrics \<Rightarrow> string pydict \<Rightarrow> string pydict \<Rightarrow> string pydict \<Rightarrow>
   string \<Rightarrow> string \<Rightarrow> error + element list" where
  "create_svg_elements g measure_text_width classes rooms teachers title free_period_name =
     bindE (draw_day g measure_text_width (real_of_int (START_X + MAIN_OFFSET_X))
              (real_of_int (START_Y + MAIN_OFFSET_Y)) [1, 3, 5, 7] classes rooms teachers)
       (\<lambda>day1.
     bindE (draw_day g measure_text_width (real_of_int (START_X + MAIN_OFFSET_X + WIDTH))
              (real_of_int (START_Y + MAIN_OFFSET_Y)) [2, 4, 6, 8] classes rooms teachers)
       (\<lambda>day2.
     bindE (draw_day g measure_text_width
              (real_of_int (START_X + MAIN_OFFSET_X + WIDTH + WIDTH))
              (real_of_int (START_Y + MAIN_OFFSET_Y)) [3, 1, 7, 5] classes rooms teachers)
       (\<lambda>day3.
     bindE (draw_day g measure_text_width
              (real_of_int (START_X + MAIN_OFFSET_X + WIDTH + WIDTH + WIDTH))
              (real_of_int (START_Y + MAIN_OFFSET_Y)) [4, 2, 8, 6] classes rooms teachers)
       (\<lambda>day4.
     bindE (draw_xday g measure_text_width (real_of_int (START_X + XDAY_OFFSET_X))
              (real_of_int (START_Y + XDAY_OFFSET_Y)) classes free_period_name)
       (\<lambda>xday.
     Inr (draw_titles g title @ day1 @ day2 @ day3 @ day4
          @ draw_sames g (real_of_int (START_X + MAIN_OFFSET_X))
              (real_of_int (START_Y + MAIN_OFFSET_Y))
          @ draw_times g (real_of_int (START_X + TIMES_OFFSET_X))
              (real_of_int (START_Y + TIMES_OFFSET_Y))
          @ xday))))))"

section \<open>The schedule normalizer (\<open>normalize_classes\<close>)\<close>










section \<open>Sample inputs\<close>

text \<open>
  A width function for concrete evaluations (half the font size for each
  character), the default tables of the module, the default class table after
  normalisation, a room table keyed by integers, and the example table with
  \<open>Foundations (H)\<close> in period 5.
\<close>

definition sample_metrics :: metrics where
  "sample_metrics text font_size = real (length text) * real_of_int font_size * 0.5"


definition ROOMS :: "string pydict" where
  "ROOMS =
     [(KStr ''1'', ''Room 1''), (KStr ''2'', ''Room 2''), (KStr ''3'', ''Room 3''),
      (KStr ''4'', ''Room 4''), (KStr ''5'', ''Room 5''), (KStr ''6'', ''Room 6''),
      (KStr ''7'', ''Room 7''), (KStr ''8'', ''Room 8'')]"

definition TEACHERS :: "string pydict" where
  "TEACHERS =
     [(KStr ''1'', ''Teacher 1''), (KStr ''2'', ''Teacher 2''), (KStr ''3'', ''Teacher 3''),
      (KStr ''4'', ''Teacher 4''), (KStr ''5'', ''Teacher 5''), (KStr ''6'', ''Teacher 6''),
      (KStr ''7'', ''Teacher 7''), (KStr ''8'', ''Teacher 8'')]"

definition classes_normalized :: "string pydict" where
  "classes_normalized =
     [(KInt 1, ''Class 1''), (KInt 2, ''Class 2''), (KInt 3, ''Class 3''),
      (KInt 4, ''Class 4''), (KInt 5, ''Class 5''), (KInt 6, ''Class 6''),
      (KInt 7, ''Class 7''), (KInt 8, ''Class 8'')]"

definition rooms_keyed_by_int :: "string pydict" where
  "rooms_keyed_by_int =
     [(KInt 1, ''Room 1''), (KInt 2, ''Room 2''), (KInt 3, ''Room 3''), (KInt 4, ''Room 4''),
      (KInt 5, ''Room 5''), (KInt 6, ''Room 6''), (KInt 7, ''Room 7''), (KInt 8, ''Room 8'')]"

definition classes_foundations :: "string pydict" where
  "classes_foundations =
     [(KInt 1, ''A''), (KInt 2, ''B''), (KInt 3, ''C''), (KInt 4, ''D''),
      (KInt 5, ''Foundations (H)''), (KInt 6, ''F''), (KInt 7, ''G''), (KInt 8, ''H'')]"

section \<open>Reading the output\<close>

text \<open>
  What the statements below observe of an element list: the rectangles and the texts, the
  fill of a rectangle, its lower edge, and the bands of the X-day column told apart by
  their fill (violet header, blue break, green lunch, a class colour).
\<close>

fun is_rect :: "element \<Rightarrow> bool" where
  "is_rect (Rect x y w h stroke fill sw) = True"
| "is_rect (Text txt x y anchor baseline sz family fill) = False"

definition rects :: "element list \<Rightarrow> element list" where
  "rects els = filter is_rect els"

definition texts :: "element list \<Rightarrow> string list" where
  "texts els = map text_of (filter (\<lambda>e. \<not> is_rect e) els)"








text \<open>
  The lines in which a day column writes a class name: the name itself when it fits the
  column at the base size or has no space, the two lines of its split otherwise.
\<close>

definition day_label_lines :: "metrics \<Rightarrow> string \<Rightarrow> string list" where
  "day_label_lines measure_text_width name =
     (if measure_text_width name BASE_CLASS_TEXT_SIZE \<le> real_of_int (WIDTH - 20)
         \<or> CHR '' '' \<notin> set name
      then [name] else split_text_two_lines name)"

text \<open>The patterns that \<open>create_svg\<close> passes to the four day columns.\<close>

definition DAY_PATTERNS :: "int list list" where
  "DAY_PATTERNS = [[1, 3, 5, 7], [2, 4, 6, 8], [3, 1, 7, 5], [4, 2, 8, 6]]"

section \<open>Searching for a character\<close>

lemma py_find_cases:
  "(py_find c t s = - 1 \<and> (\<forall>i. s \<le> i \<and> i < length t \<longrightarrow> t ! i \<noteq> c)) \<or>
   (\<exists>p. py_find c t s = int p \<and> s \<le> p \<and> p < length t \<and> t ! p = c \<and>
        (\<forall>j. s \<le> j \<and> j < p \<longrightarrow> t ! j \<noteq> c))"
proof (cases "List.find (\<lambda>i. t ! i = c) [s..<length t]")
  case None
  then have "py_find c t s = - 1" by (simp add: py_find_def)
  moreover have "\<forall>i. s \<le> i \<and> i < length t \<longrightarrow> t ! i \<noteq> c"
    using None by (auto simp: find_None_iff)
  ultimately show ?thesis by blast
next
  case (Some p)
  then obtain i where i: "i < length [s..<length t]" "t ! ([s..<length t] ! i) = c"
      "p = [s..<length t] ! i" "\<forall>j<i. t ! ([s..<length t] ! j) \<noteq> c"
    unfolding find_Some_iff by blast
  from i(1) have il: "s + i < length t" by simp
  have p: "p = s + i" using i(3) il by simp
  have before: "\<forall>j. s \<le> j \<and> j < p \<longrightarrow> t ! j \<noteq> c"
  proof (intro allI impI)
    fix j assume j: "s \<le> j \<and> j < p"
    then have "j - s < i" using p by arith
    with i(4) have "t ! ([s..<length t] ! (j - s)) \<noteq> c" by blast
    moreover have "[s..<length t] ! (j - s) = j" using j p il by simp
    ultimately show "t ! j \<noteq> c" by simp
  qed
  have "py_find c t s = int p" using Some by (simp add: py_find_def)
  moreover have "s \<le> p" "p < length t" using p il by simp_all
  moreover have "t ! p = c" using i(2) i(3) by simp
  ultimately show ?thesis using before by blast
qed

lemma py_rfind_cases:
  "(py_rfind c t s e = - 1 \<and> (\<forall>i. s \<le> i \<and> i < e \<and> i < length t \<longrightarrow> t ! i \<noteq> c)) \<or>
   (\<exists>p. py_rfind c t s e = int p \<and> s \<le> p \<and> p < e \<and> p < length t \<and> t ! p = c \<and>
        (\<forall>j. p < j \<and> j < e \<and> j < length t \<longrightarrow> t ! j \<noteq> c))"
proof (cases "List.find (\<lambda>i. t ! i = c) (rev [s..<min e (length t)])")
  case None
  then have "py_rfind c t s e = - 1" by (simp add: py_rfind_def)
  moreover have "\<forall>i. s \<le> i \<and> i < e \<and> i < length t \<longrightarrow> t ! i \<noteq> c"
    using None by (auto simp: find_None_iff)
  ultimately show ?thesis by blast
next
  case (Some p)
  define m where "m = min e (length t)"
  from Some obtain i where i: "i < length (rev [s..<m])" "t ! (rev [s..<m] ! i) = c"
      "p = rev [s..<m] ! i" "\<forall>j<i. t ! (rev [s..<m] ! j) \<noteq> c"
    unfolding m_def find_Some_iff by blast
  from i(1) have il: "i < m - s" by simp
  have p: "p = m - Suc i" using i(3) il by (simp add: rev_nth)
  have after: "\<forall>j. p < j \<and> j < e \<and> j < length t \<longrightarrow> t ! j \<noteq> c"
  proof (intro allI impI)
    fix j assume j: "p < j \<and> j < e \<and> j < length t"
    then have jm: "j < m" by (simp add: m_def)
    then have ji: "m - Suc j < i" using j p il by arith
    with i(4) have "t ! (rev [s..<m] ! (m - Suc j)) \<noteq> c" by blast
    moreover have "s \<le> j" using j p il by arith
    then have "rev [s..<m] ! (m - Suc j) = j" using jm by (simp add: rev_nth)
    ultimately show "t ! j \<noteq> c" by simp
  qed
  have "py_rfind c t s e = int p" using Some by (simp add: py_rfind_def)
  moreover have "s \<le> p" "p < m" using p il by arith+
  moreover have "t ! p = c" using i(2) i(3) by simp
  ultimately show ?thesis using after unfolding m_def by auto
qed

lemma split_unfold:
  assumes "CHR '' '' \<in> set t"
    and "py_rfind (CHR '' '') t 0 (length t div 2) = L"
    and "py_find (CHR '' '') t (length t div 2) = R"
    and "L \<noteq> - 1 \<or> R \<noteq> - 1"
    and "(if L = - 1 then R else if R = - 1 then L
               else if int (length t div 2) - L \<le> R - int (length t div 2) then L else R) = int p"
  shows "split_text_two_lines t = [strip (take p t), strip (drop (Suc p) t)]"
proof -
  have a: "nat (int p + 1) = Suc p" "nat (int p) = p" by simp_all
  have "split_text_two_lines t = [strip (take (nat (int p)) t), strip (drop (nat (int p + 1)) t)]"
    unfolding split_text_two_lines_def Let_def assms(2) assms(3) assms(5)
    using assms(1) assms(4) by simp
  then show ?thesis unfolding a .
qed

lemma nearest_arith:
  fixes l r q mid :: nat
  assumes "q \<le> l \<or> r \<le> q" "l < mid" "mid \<le> r"
    and "p = (if int mid - int l \<le> int r - int mid then l else r)"
  shows "\<bar>int p - int mid\<bar> \<le> \<bar>int q - int mid\<bar> \<and>
         (\<bar>int q - int mid\<bar> = \<bar>int p - int mid\<bar> \<longrightarrow> p \<le> q)"
proof (cases "int mid - int l \<le> int r - int mid")
  case True
  then have "p = l" using assms(4) by simp
  then show ?thesis using assms(1,2,3) True by linarith
next
  case False
  then have "p = r" using assms(4) by simp
  then show ?thesis using assms(1,2,3) False by linarith
qed

lemma right_only_arith:
  fixes r q mid :: nat
  assumes "r \<le> q" "mid \<le> r"
  shows "\<bar>int r - int mid\<bar> \<le> \<bar>int q - int mid\<bar> \<and>
         (\<bar>int q - int mid\<bar> = \<bar>int r - int mid\<bar> \<longrightarrow> r \<le> q)"
  using assms by linarith

lemma left_only_arith:
  fixes l q mid :: nat
  assumes "q \<le> l" "l < mid"
  shows "\<bar>int l - int mid\<bar> \<le> \<bar>int q - int mid\<bar> \<and>
         (\<bar>int q - int mid\<bar> = \<bar>int l - int mid\<bar> \<longrightarrow> l \<le> q)"
  using assms by linarith

section \<open>The two-line split\<close>

lemma split_at_nearest_space:
  assumes sp: "CHR '' '' \<in> set t"
  shows "\<exists>p. p < length t \<and> t ! p = CHR '' '' \<and>
       split_text_two_lines t = [strip (take p t), strip (drop (Suc p) t)] \<and>
       (\<forall>q. q < length t \<and> t ! q = CHR '' '' \<longrightarrow>
          \<bar>int p - int (length t div 2)\<bar> \<le> \<bar>int q - int (length t div 2)\<bar> \<and>
          (\<bar>int q - int (length t div 2)\<bar> = \<bar>int p - int (length t div 2)\<bar> \<longrightarrow> p \<le> q))"
proof -
  define mid where "mid = length t div 2"
  define L where "L = py_rfind (CHR '' '') t 0 mid"
  define R where "R = py_find (CHR '' '') t mid"
  have midle: "mid \<le> length t" by (simp add: mid_def)
  from sp obtain k where k: "k < length t" "t ! k = CHR '' ''"
    by (auto simp: in_set_conv_nth)
  have Lc: "(L = - 1 \<and> (\<forall>i. i < mid \<longrightarrow> t ! i \<noteq> CHR '' '')) \<or>
       (\<exists>l. L = int l \<and> l < mid \<and> t ! l = CHR '' '' \<and>
          (\<forall>j. l < j \<and> j < mid \<longrightarrow> t ! j \<noteq> CHR '' ''))"
    using py_rfind_cases[of "CHR '' ''" t 0 mid] midle unfolding L_def
    by (elim disjE exE conjE) auto
  have Rc: "(R = - 1 \<and> (\<forall>i. mid \<le> i \<and> i < length t \<longrightarrow> t ! i \<noteq> CHR '' '')) \<or>
       (\<exists>r. R = int r \<and> mid \<le> r \<and> r < length t \<and> t ! r = CHR '' '' \<and>
          (\<forall>j. mid \<le> j \<and> j < r \<longrightarrow> t ! j \<noteq> CHR '' ''))"
    using py_find_cases[of "CHR '' ''" t mid] unfolding R_def by blast
  note un = split_unfold[OF sp L_def[unfolded mid_def, symmetric] R_def[unfolded mid_def, symmetric]]
  from Lc show ?thesis
  proof (elim disjE exE conjE)
    assume L1: "L = - 1" and Ln: "\<forall>i. i < mid \<longrightarrow> t ! i \<noteq> CHR '' ''"
    from Rc show ?thesis
    proof (elim disjE exE conjE)
      assume "R = - 1" "\<forall>i. mid \<le> i \<and> i < length t \<longrightarrow> t ! i \<noteq> CHR '' ''"
      with Ln k have False by (cases "k < mid") auto
      then show ?thesis ..
    next
      fix r assume r: "R = int r" "mid \<le> r" "r < length t" "t ! r = CHR '' ''"
        "\<forall>j. mid \<le> j \<and> j < r \<longrightarrow> t ! j \<noteq> CHR '' ''"
      have eq: "split_text_two_lines t = [strip (take r t), strip (drop (Suc r) t)]"
        by (rule un) (use L1 r(1) in simp_all)
      have "\<forall>q. q < length t \<and> t ! q = CHR '' '' \<longrightarrow> r \<le> q"
        using Ln r(5) by (metis not_le_imp_less)
      then have "\<forall>q. q < length t \<and> t ! q = CHR '' '' \<longrightarrow>
          \<bar>int r - int mid\<bar> \<le> \<bar>int q - int mid\<bar> \<and>
          (\<bar>int q - int mid\<bar> = \<bar>int r - int mid\<bar> \<longrightarrow> r \<le> q)"
        using r(2) by (metis right_only_arith)
      with eq r(3,4) show ?thesis unfolding mid_def by blast
    qed
  next
    fix l assume l: "L = int l" "l < mid" "t ! l = CHR '' ''"
        "\<forall>j. l < j \<and> j < mid \<longrightarrow> t ! j \<noteq> CHR '' ''"
    have ll: "l < length t" using l(2) midle by simp
    from Rc show ?thesis
    proof (elim disjE exE conjE)
      assume R1: "R = - 1" and Rn: "\<forall>i. mid \<le> i \<and> i < length t \<longrightarrow> t ! i \<noteq> CHR '' ''"
      have eq: "split_text_two_lines t = [strip (take l t), strip (drop (Suc l) t)]"
        by (rule un) (use R1 l(1) in simp_all)
      have "\<forall>q. q < length t \<and> t ! q = CHR '' '' \<longrightarrow> q \<le> l"
        using Rn l(4) by (metis not_le_imp_less)
      then have "\<forall>q. q < length t \<and> t ! q = CHR '' '' \<longrightarrow>
          \<bar>int l - int mid\<bar> \<le> \<bar>int q - int mid\<bar> \<and>
          (\<bar>int q - int mid\<bar> = \<bar>int l - int mid\<bar> \<longrightarrow> l \<le> q)"
        using l(2) by (metis left_only_arith)
      with eq ll l(3) show ?thesis unfolding mid_def by blast
    next
      fix r assume r: "R = int r" "mid \<le> r" "r < length t" "t ! r = CHR '' ''"
        "\<forall>j. mid \<le> j \<and> j < r \<longrightarrow> t ! j \<noteq> CHR '' ''"
      define p where "p = (if int mid - int l \<le> int r - int mid then l else r)"
      have eq: "split_text_two_lines t = [strip (take p t), strip (drop (Suc p) t)]"
        by (rule un) (use l(1) r(1) in \<open>simp_all add: p_def mid_def\<close>)
      have side: "\<forall>q. q < length t \<and> t ! q = CHR '' '' \<longrightarrow> q \<le> l \<or> r \<le> q"
        using l(4) r(5) by (metis not_le_imp_less)
      have "\<forall>q. q < length t \<and> t ! q = CHR '' '' \<longrightarrow>
          \<bar>int p - int mid\<bar> \<le> \<bar>int q - int mid\<bar> \<and>
          (\<bar>int q - int mid\<bar> = \<bar>int p - int mid\<bar> \<longrightarrow> p \<le> q)"
        using side nearest_arith[OF _ l(2) r(2) p_def] by blast
      moreover have "p < length t" "t ! p = CHR '' ''"
        using ll r(3) l(3) r(4) by (auto simp: p_def)
      ultimately show ?thesis using eq unfolding mid_def by blast
    qed
  qed
qed


text \<open>
  Claim C5. For every string that contains a space, \<open>split_text_two_lines\<close> returns two
  lines, the stripped text before and the stripped text after one space of the string;
  that space is a nearest one to the character midpoint \<open>len(text) // 2\<close>, and when another
  space is exactly as near, the chosen one is the earlier (the one before the midpoint).
  In particular, when spaces exist on one side of the midpoint only, the nearest of that
  side is taken. The two examples of the specification come out as stated.
\<close>

theorem split_text_two_lines_nearest_boundary:
  "(CHR '' '' \<in> set t \<longrightarrow>
      (\<exists>p. p < length t \<and> t ! p = CHR '' '' \<and>
         split_text_two_lines t = [strip (take p t), strip (drop (Suc p) t)] \<and>
         (\<forall>q. q < length t \<and> t ! q = CHR '' '' \<longrightarrow>
            \<bar>int p - int (length t div 2)\<bar> \<le> \<bar>int q - int (length t div 2)\<bar> \<and>
            (\<bar>int q - int (length t div 2)\<bar> = \<bar>int p - int (length t div 2)\<bar> \<longrightarrow> p \<le> q)))) \<and>
   split_text_two_lines ''AAAA BBBB'' = [''AAAA'', ''BBBB''] \<and>
   split_text_two_lines ''A BBBBBBBB'' = [''A'', ''BBBBBBBB'']"
proof (intro conjI impI)
  assume "CHR '' '' \<in> set t"
  then show "\<exists>p. p < length t \<and> t ! p = CHR '' '' \<and>
         split_text_two_lines t = [strip (take p t), strip (drop (Suc p) t)] \<and>
         (\<forall>q. q < length t \<and> t ! q = CHR '' '' \<longrightarrow>
            \<bar>int p - int (length t div 2)\<bar> \<le> \<bar>int q - int (length t div 2)\<bar> \<and>
            (\<bar>int q - int (length t div 2)\<bar> = \<bar>int p - int (length t div 2)\<bar> \<longrightarrow> p \<le> q))"
    by (rule split_at_nearest_space)
next
  show "split_text_two_lines ''AAAA BBBB'' = [''AAAA'', ''BBBB'']"
    by code_simp
next
  show "split_text_two_lines ''A BBBBBBBB'' = [''A'', ''BBBBBBBB'']"
    by code_simp
qed

theorem split_text_two_lines_nearest_boundary_witness:
  "CHR '' '' \<in> set ''one two three'' \<and>
   (\<exists>p. p < length ''one two three'' \<and> ''one two three'' ! p = CHR '' '' \<and>
      split_text_two_lines ''one two three'' =
        [strip (take p ''one two three''), strip (drop (Suc p) ''one two three'')] \<and>
      (\<forall>q. q < length ''one two three'' \<and> ''one two three'' ! q = CHR '' '' \<longrightarrow>
         \<bar>int p - int (length ''one two three'' div 2)\<bar>
           \<le> \<bar>int q - int (length ''one two three'' div 2)\<bar> \<and>
         (\<bar>int q - int (length ''one two three'' div 2)\<bar>
            = \<bar>int p - int (length ''one two three'' div 2)\<bar> \<longrightarrow> p \<le> q)))"
proof -
  have h: "CHR '' '' \<in> set ''one two three''" by simp
  from split_text_two_lines_nearest_boundary [of "''one two three''"] h
  show ?thesis by blast
qed

section \<open>The band heights\<close>




section \<open>The text fitter\<close>

lemma fit_without_split_at_base_size:
  "measure_text_width t base_size \<le> max_width \<Longrightarrow>
   fit_text_to_width measure_text_width t max_width base_size min_size False
     = (base_size, Size base_size)"
  by (simp add: fit_text_to_width_def)

text \<open>
  Claim C7 says that the fitter always returns the size paired with the list of lines.
  Called as the X-day column calls it (no split allowed) on a text that fits at the base
  size, it returns the base size twice: the second component is a number, not a list.
\<close>

theorem fit_text_to_width_returns_size_twice:
  "fit_text_to_width sample_metrics ''Class 1'' 430 50 8 False = (50, Size 50)"
  by (simp add: fit_text_to_width_def sample_metrics_def)

section \<open>Results and lookups\<close>

lemma bindE_Inr [simp]: "bindE (Inr v) f = f v"
  by (simp add: bindE_def)

lemma bindE_Inl [simp]: "bindE (Inl e) f = Inl e"
  by (simp add: bindE_def)

lemma bindE_eq_Inr: "bindE m f = Inr r \<longleftrightarrow> (\<exists>v. m = Inr v \<and> f v = Inr r)"
  by (cases m) simp_all

lemma bindE_isl: "isl (bindE m f) \<longleftrightarrow> isl m \<or> (\<exists>v. m = Inr v \<and> isl (f v))"
  by (cases m) simp_all

lemma getitem_eq_Inr: "getitem d k = Inr v \<longleftrightarrow> map_of d k = Some v"
  by (simp add: getitem_def split: option.splits)

lemma getitem_eq_Inl: "getitem d k = Inl e \<longleftrightarrow> e = KeyError k \<and> k \<notin> fst ` set d"
  unfolding map_of_eq_None_iff [symmetric] by (auto simp: getitem_def split: option.splits)

lemma getitem_isl: "isl (getitem d k) \<longleftrightarrow> k \<notin> fst ` set d"
  unfolding map_of_eq_None_iff [symmetric] by (auto simp: getitem_def split: option.splits)

lemma class_colors:
  "getitem CLASS_COLORS (KInt 1) = Inr ''#91DCFA''"
  "getitem CLASS_COLORS (KInt 2) = Inr ''#FEF59C''"
  "getitem CLASS_COLORS (KInt 3) = Inr ''#FFC4E7''"
  "getitem CLASS_COLORS (KInt 4) = Inr ''#E3B5FB''"
  "getitem CLASS_COLORS (KInt 5) = Inr ''#FF9795''"
  "getitem CLASS_COLORS (KInt 6) = Inr ''#A7F0D6''"
  "getitem CLASS_COLORS (KInt 7) = Inr ''#FDC688''"
  "getitem CLASS_COLORS (KInt 8) = Inr ''#CCCCCC''"
  by (simp_all add: getitem_def CLASS_COLORS_def)

section \<open>The day column\<close>

lemma split_length:
  "CHR '' '' \<in> set t \<Longrightarrow> length (split_text_two_lines t) = 2"
  using split_at_nearest_space [of t] by auto

lemma fit_with_split_lines:
  "snd (fit_text_to_width m t w b mn True) =
     Lines (if m t b \<le> w \<or> CHR '' '' \<notin> set t then [t] else split_text_two_lines t)"
  by (simp add: fit_text_to_width_def Let_def)

lemma two_elements: "length xs = 2 \<Longrightarrow> [xs ! 0, xs ! Suc 0] = xs"
  by (cases xs; cases "tl xs") auto

lemma draw_day_period_Inr:
  assumes "draw_day_period m p classes rooms teachers xm y1 y2 ys yr yt = Inr els"
  shows "\<exists>l r t. getitem classes (KInt p) = Inr l \<and> getitem rooms (KStr (py_str p)) = Inr r \<and>
     getitem teachers (KStr (py_str p)) = Inr t \<and>
     texts els = day_label_lines m l @ [r, t] \<and> rects els = []"
proof -
  from assms obtain l lab r t where
    l: "getitem classes (KInt p) = Inr l" and
    lab: "(case Lines (if m l BASE_CLASS_TEXT_SIZE \<le> real_of_int (WIDTH - 20) \<or> CHR '' '' \<notin> set l
                      then [l] else split_text_two_lines l) of
            Size n \<Rightarrow> Inl TypeError
          | Lines ls \<Rightarrow>
              if length ls = 2 then
                Inr [centred (ls ! 0) xm y1
                       (fst (fit_text_to_width m l (real_of_int (WIDTH - 20)) BASE_CLASS_TEXT_SIZE 8 True))
                       MAIN_FONT_FAMILY None,
                     centred (ls ! 1) xm y2
                       (fst (fit_text_to_width m l (real_of_int (WIDTH - 20)) BASE_CLASS_TEXT_SIZE 8 True))
                       MAIN_FONT_FAMILY None]
              else
                Inr [centred l xm ys
                       (fst (fit_text_to_width m l (real_of_int (WIDTH - 20)) BASE_CLASS_TEXT_SIZE 8 True))
                       MAIN_FONT_FAMILY None]) = Inr lab" and
    r: "getitem rooms (KStr (py_str p)) = Inr r" and
    t: "getitem teachers (KStr (py_str p)) = Inr t" and
    els: "els = lab @ [centred r xm yr BASE_ROOM_SIZE MAIN_FONT_FAMILY None,
                       centred t xm yt BASE_ROOM_SIZE MAIN_FONT_FAMILY None]"
    unfolding draw_day_period_def Let_def fit_with_split_lines bindE_eq_Inr by blast
  have "texts lab = day_label_lines m l \<and> rects lab = []"
  proof (cases "m l BASE_CLASS_TEXT_SIZE \<le> real_of_int (WIDTH - 20) \<or> CHR '' '' \<notin> set l")
    case True
    with lab show ?thesis
      by (auto simp: texts_def rects_def centred_def day_label_lines_def)
  next
    case False
    then have len: "length (split_text_two_lines l) = 2" by (simp add: split_length)
    with lab False show ?thesis
      using two_elements [OF len]
      by (auto simp: texts_def rects_def centred_def day_label_lines_def)
  qed
  with l r t els show ?thesis
    by (auto simp: texts_def rects_def centred_def)
qed


lemma isl_iff_no_result: "isl r \<longleftrightarrow> \<not> (\<exists>v. r = Inr v)"
  by (cases r) simp_all

lemma getitem_ok: "(\<exists>v. getitem d k = Inr v) \<longleftrightarrow> k \<in> fst ` set d"
  using getitem_isl [of d k] unfolding isl_iff_no_result by blast

lemma index_list_eq_Inr: "index_list xs i = Inr v \<longleftrightarrow> i < length xs \<and> v = xs ! i"
  by (auto simp: index_list_def)

lemma if_Inr: "(if c then Inr a else Inr b) = Inr (if c then a else b)"
  by simp

lemma bindE_ok: "(\<exists>r. bindE m f = Inr r) \<longleftrightarrow> (\<exists>v. m = Inr v \<and> (\<exists>r. f v = Inr r))"
  by (cases m) simp_all

lemma draw_day_period_ok:
  "(\<exists>els. draw_day_period m p classes rooms teachers xm y1 y2 ys yr yt = Inr els) \<longleftrightarrow>
     KInt p \<in> fst ` set classes \<and> KStr (py_str p) \<in> fst ` set rooms \<and>
     KStr (py_str p) \<in> fst ` set teachers"
proof
  assume "\<exists>els. draw_day_period m p classes rooms teachers xm y1 y2 ys yr yt = Inr els"
  then obtain els where "draw_day_period m p classes rooms teachers xm y1 y2 ys yr yt = Inr els" ..
  from draw_day_period_Inr [OF this]
  show "KInt p \<in> fst ` set classes \<and> KStr (py_str p) \<in> fst ` set rooms \<and>
     KStr (py_str p) \<in> fst ` set teachers"
    unfolding getitem_ok [symmetric] by blast
next
  assume "KInt p \<in> fst ` set classes \<and> KStr (py_str p) \<in> fst ` set rooms \<and>
     KStr (py_str p) \<in> fst ` set teachers"
  then obtain l r t where lrt: "getitem classes (KInt p) = Inr l"
    "getitem rooms (KStr (py_str p)) = Inr r" "getitem teachers (KStr (py_str p)) = Inr t"
    unfolding getitem_ok [symmetric] by blast
  show "\<exists>els. draw_day_period m p classes rooms teachers xm y1 y2 ys yr yt = Inr els"
    unfolding draw_day_period_def Let_def fit_with_split_lines fit_second.case if_Inr lrt bindE_Inr
    by blast
qed

lemma all_less_4: "(\<forall>i<4::nat. P i) \<longleftrightarrow> P 0 \<and> P 1 \<and> P 2 \<and> P 3"
proof -
  have "\<And>i::nat. i < 4 \<longleftrightarrow> i = 0 \<or> i = 1 \<or> i = 2 \<or> i = 3" by arith
  then show ?thesis by metis
qed

lemma draw_day_ok:
  "(\<exists>els. draw_day g m x y dc classes rooms teachers = Inr els) \<longleftrightarrow>
     4 \<le> length dc \<and>
     (\<forall>i<4. KInt (dc ! i) \<in> fst ` set CLASS_COLORS \<and> KInt (dc ! i) \<in> fst ` set classes \<and>
        KStr (py_str (dc ! i)) \<in> fst ` set rooms \<and> KStr (py_str (dc ! i)) \<in> fst ` set teachers)"
proof -
  have len: "4 \<le> length dc \<longleftrightarrow>
      dc \<noteq> [] \<and> Suc 0 < length dc \<and> 2 < length dc \<and> 3 < length dc"
    by (cases dc) auto
  show ?thesis
    unfolding draw_day_def Let_def all_less_4 len
    by (simp add: bindE_ok index_list_eq_Inr getitem_ok draw_day_period_ok) blast
qed

lemma draw_day_shape:
  assumes "draw_day g m x y dc classes rooms teachers = Inr els"
  shows "\<exists>c0 c1 c2 c3 e0 e1 e2 e3.
     4 \<le> length dc \<and>
     (\<exists>xm y1 y2 ys yr yt.
        draw_day_period m (dc ! 0) classes rooms teachers xm y1 y2 ys yr yt = Inr e0) \<and>
     (\<exists>xm y1 y2 ys yr yt.
        draw_day_period m (dc ! 1) classes rooms teachers xm y1 y2 ys yr yt = Inr e1) \<and>
     (\<exists>xm y1 y2 ys yr yt.
        draw_day_period m (dc ! 2) classes rooms teachers xm y1 y2 ys yr yt = Inr e2) \<and>
     (\<exists>xm y1 y2 ys yr yt.
        draw_day_period m (dc ! 3) classes rooms teachers xm y1 y2 ys yr yt = Inr e3) \<and>
     els =
       [band x (y + real_of_int (OTHER_HEIGHT g)) (real_of_int WIDTH)
          (real_of_int (CLASS_HEIGHT g)) c0,
        band x (y + real_of_int (OTHER_HEIGHT g) + real_of_int (CLASS_HEIGHT g)
                  + real_of_int (BREAK_HEIGHT g)) (real_of_int WIDTH)
          (real_of_int (CLASS_HEIGHT g)) c1,
        band x (y + (real_of_int (OTHER_HEIGHT g) * 2) + (real_of_int (CLASS_HEIGHT g) * 2)
                  + real_of_int (BREAK_HEIGHT g)) (real_of_int WIDTH)
          (real_of_int (CLASS_HEIGHT g)) c2,
        band x (y + (real_of_int (OTHER_HEIGHT g) * 2) + (real_of_int (CLASS_HEIGHT g) * 3)
                  + (real_of_int (BREAK_HEIGHT g) * 2)) (real_of_int WIDTH)
          (real_of_int (CLASS_HEIGHT g)) c3,
        band x (y + (real_of_int (OTHER_HEIGHT g) * 2) + (real_of_int (CLASS_HEIGHT g) * 4)
                  + (real_of_int (BREAK_HEIGHT g) * 2)) (real_of_int WIDTH)
          (real_of_int (OTHER_HEIGHT g)) ''#FFFFFF'']
       @ e0 @ e1 @ e2 @ e3"
  using assms unfolding draw_day_def Let_def bindE_eq_Inr index_list_eq_Inr
  by (elim exE conjE) (simp, blast)




lemma texts_append: "texts (a @ b) = texts a @ texts b"
  by (simp add: texts_def)

lemma draw_day_texts:
  assumes "draw_day g m x y dc classes rooms teachers = Inr els"
  shows "\<exists>l0 r0 t0 l1 r1 t1 l2 r2 t2 l3 r3 t3.
     getitem classes (KInt (dc ! 0)) = Inr l0 \<and> getitem rooms (KStr (py_str (dc ! 0))) = Inr r0 \<and>
     getitem teachers (KStr (py_str (dc ! 0))) = Inr t0 \<and>
     getitem classes (KInt (dc ! 1)) = Inr l1 \<and> getitem rooms (KStr (py_str (dc ! 1))) = Inr r1 \<and>
     getitem teachers (KStr (py_str (dc ! 1))) = Inr t1 \<and>
     getitem classes (KInt (dc ! 2)) = Inr l2 \<and> getitem rooms (KStr (py_str (dc ! 2))) = Inr r2 \<and>
     getitem teachers (KStr (py_str (dc ! 2))) = Inr t2 \<and>
     getitem classes (KInt (dc ! 3)) = Inr l3 \<and> getitem rooms (KStr (py_str (dc ! 3))) = Inr r3 \<and>
     getitem teachers (KStr (py_str (dc ! 3))) = Inr t3 \<and>
     texts els = day_label_lines m l0 @ [r0, t0] @ day_label_lines m l1 @ [r1, t1]
               @ day_label_lines m l2 @ [r2, t2] @ day_label_lines m l3 @ [r3, t3]"
proof -
  from draw_day_shape [OF assms] obtain c0 c1 c2 c3 e0 e1 e2 e3 R where
    e0: "\<exists>xm y1 y2 ys yr yt.
        draw_day_period m (dc ! 0) classes rooms teachers xm y1 y2 ys yr yt = Inr e0" and
    e1: "\<exists>xm y1 y2 ys yr yt.
        draw_day_period m (dc ! 1) classes rooms teachers xm y1 y2 ys yr yt = Inr e1" and
    e2: "\<exists>xm y1 y2 ys yr yt.
        draw_day_period m (dc ! 2) classes rooms teachers xm y1 y2 ys yr yt = Inr e2" and
    e3: "\<exists>xm y1 y2 ys yr yt.
        draw_day_period m (dc ! 3) classes rooms teachers xm y1 y2 ys yr yt = Inr e3" and
    els: "els = R @ e0 @ e1 @ e2 @ e3" and R: "texts R = []"
    by (fastforce simp: texts_def band_def)
  from e0 draw_day_period_Inr obtain l0 r0 t0 where
    "getitem classes (KInt (dc ! 0)) = Inr l0" "getitem rooms (KStr (py_str (dc ! 0))) = Inr r0"
    "getitem teachers (KStr (py_str (dc ! 0))) = Inr t0" "texts e0 = day_label_lines m l0 @ [r0, t0]"
    by blast
  moreover from e1 draw_day_period_Inr obtain l1 r1 t1 where
    "getitem classes (KInt (dc ! 1)) = Inr l1" "getitem rooms (KStr (py_str (dc ! 1))) = Inr r1"
    "getitem teachers (KStr (py_str (dc ! 1))) = Inr t1" "texts e1 = day_label_lines m l1 @ [r1, t1]"
    by blast
  moreover from e2 draw_day_period_Inr obtain l2 r2 t2 where
    "getitem classes (KInt (dc ! 2)) = Inr l2" "getitem rooms (KStr (py_str (dc ! 2))) = Inr r2"
    "getitem teachers (KStr (py_str (dc ! 2))) = Inr t2" "texts e2 = day_label_lines m l2 @ [r2, t2]"
    by blast
  moreover from e3 draw_day_period_Inr obtain l3 r3 t3 where
    "getitem classes (KInt (dc ! 3)) = Inr l3" "getitem rooms (KStr (py_str (dc ! 3))) = Inr r3"
    "getitem teachers (KStr (py_str (dc ! 3))) = Inr t3" "texts e3 = day_label_lines m l3 @ [r3, t3]"
    by blast
  ultimately show ?thesis
    using els R by (simp add: texts_append)
qed


lemma draw_day_isl:
  "isl (draw_day g m x y dc classes rooms teachers) \<longleftrightarrow>
     length dc < 4 \<or>
     (\<exists>i<4. KInt (dc ! i) \<notin> fst ` set CLASS_COLORS \<or> KInt (dc ! i) \<notin> fst ` set classes \<or>
        KStr (py_str (dc ! i)) \<notin> fst ` set rooms \<or> KStr (py_str (dc ! i)) \<notin> fst ` set teachers)"
  unfolding isl_iff_no_result draw_day_ok by auto

section \<open>The X-day column\<close>

lemma getitem_substitute:
  "getitem (substitute_foundations cls free) k = Inr n \<longleftrightarrow>
     (\<exists>l. getitem cls k = Inr l \<and> n = rename_foundations free l)"
  unfolding getitem_eq_Inr substitute_foundations_def map_of_map by auto

lemma keys_substitute: "fst ` set (substitute_foundations cls free) = fst ` set cls"
  by (force simp: substitute_foundations_def)

lemma all_1_8: "(\<forall>k\<in>{1..8::int}. P k) \<longleftrightarrow> P 1 \<and> P 2 \<and> P 3 \<and> P 4 \<and> P 5 \<and> P 6 \<and> P 7 \<and> P 8"
proof -
  have "\<And>k::int. k \<in> {1..8} \<longleftrightarrow> k = 1 \<or> k = 2 \<or> k = 3 \<or> k = 4 \<or> k = 5 \<or> k = 6 \<or> k = 7 \<or> k = 8"
    by auto
  then show ?thesis by metis
qed

lemma draw_xday_ok:
  "(\<exists>els. draw_xday g m x y cls free = Inr els) \<longleftrightarrow> (\<forall>k\<in>{1..8}. KInt k \<in> fst ` set cls)"
  unfolding draw_xday_def Let_def class_colors bindE_Inr all_1_8
  by (simp add: bindE_ok getitem_ok keys_substitute)

lemma draw_xday_texts:
  assumes "draw_xday g m x y cls free = Inr els"
  shows "\<exists>l1 l2 l3 l4 l5 l6 l7 l8.
     map (\<lambda>k. getitem cls (KInt k)) [1, 2, 3, 4, 5, 6, 7, 8]
       = [Inr l1, Inr l2, Inr l3, Inr l4, Inr l5, Inr l6, Inr l7, Inr l8] \<and>
     texts els =
       [''Office Hours'',
        rename_foundations free l1, ''8:30 - 9:10 a.m.'',
        rename_foundations free l2, ''9:15 - 9:55 a.m.'',
        ''Break 9:55 - 10:05 a.m.'',
        rename_foundations free l3, ''10:05 - 10:45 a.m.'',
        rename_foundations free l4, ''10:50 - 11:30 a.m.'',
        ''Break 11:30 - 11:40 a.m.'',
        rename_foundations free l5, ''11:40 a.m. - 12:20 p.m.'',
        ''Lunch'', ''12:20 - 1:00 p.m.'',
        rename_foundations free l6, ''1:00 - 1:40 p.m.'',
        rename_foundations free l7, ''1:45 - 2:25 p.m.'',
        ''Break 2:25 - 2:35 p.m.'',
        rename_foundations free l8, ''2:35 - 3:15 p.m.'']"
  using assms unfolding draw_xday_def Let_def class_colors bindE_Inr bindE_eq_Inr getitem_substitute
  by (elim exE conjE) (clarsimp simp: texts_def band_def centred_def xday_label_def)



section \<open>Which renderings raise\<close>

lemma py_str_periods:
  "py_str 1 = ''1''" "py_str 2 = ''2''" "py_str 3 = ''3''" "py_str 4 = ''4''"
  "py_str 5 = ''5''" "py_str 6 = ''6''" "py_str 7 = ''7''" "py_str 8 = ''8''"
  by code_simp+

lemma day_patterns_cases:
  "dc \<in> set DAY_PATTERNS \<longleftrightarrow>
     dc = [1, 3, 5, 7] \<or> dc = [2, 4, 6, 8] \<or> dc = [3, 1, 7, 5] \<or> dc = [4, 2, 8, 6]"
  by (auto simp: DAY_PATTERNS_def)

lemma key_errors_only_bindE:
  assumes "\<forall>e. r = Inl e \<longrightarrow> (\<exists>k. e = KeyError k)"
    and "\<And>v. \<forall>e. f v = Inl e \<longrightarrow> (\<exists>k. e = KeyError k)"
  shows "\<forall>e. bindE r f = Inl e \<longrightarrow> (\<exists>k. e = KeyError k)"
  using assms by (cases r) auto

lemma key_errors_only_getitem: "\<forall>e. getitem d k = Inl e \<longrightarrow> (\<exists>k. e = KeyError k)"
  by (simp add: getitem_eq_Inl)

lemma key_errors_only_period:
  "\<forall>e. draw_day_period m p classes rooms teachers xm y1 y2 ys yr yt = Inl e
       \<longrightarrow> (\<exists>k. e = KeyError k)"
  unfolding draw_day_period_def Let_def fit_with_split_lines fit_second.case if_Inr
  by (intro key_errors_only_bindE key_errors_only_getitem) simp_all

lemma key_errors_only_day:
  assumes "4 \<le> length dc"
  shows "\<forall>e. draw_day g m x y dc classes rooms teachers = Inl e \<longrightarrow> (\<exists>k. e = KeyError k)"
proof -
  have idx: "index_list dc 0 = Inr (dc ! 0)" "index_list dc 1 = Inr (dc ! 1)"
    "index_list dc 2 = Inr (dc ! 2)" "index_list dc 3 = Inr (dc ! 3)"
    using assms by (auto simp: index_list_def)
  show ?thesis
    unfolding draw_day_def Let_def idx bindE_Inr
    by (intro key_errors_only_bindE key_errors_only_getitem key_errors_only_period) simp_all
qed

lemma draw_day_fixed_pattern_isl:
  assumes "dc \<in> set DAY_PATTERNS"
  shows "isl (draw_day g m x y dc classes rooms teachers) \<longleftrightarrow>
     (\<exists>p\<in>set dc. KInt p \<notin> fst ` set classes \<or> KStr (py_str p) \<notin> fst ` set rooms \<or>
        KStr (py_str p) \<notin> fst ` set teachers)"
proof -
  have "\<And>i::nat. i < 4 \<longleftrightarrow> i = 0 \<or> i = 1 \<or> i = 2 \<or> i = 3" by arith
  then have ex4: "\<And>P. (\<exists>i<4::nat. P i) \<longleftrightarrow> P 0 \<or> P 1 \<or> P 2 \<or> P 3" by metis
  from assms show ?thesis
    unfolding day_patterns_cases draw_day_isl ex4
    by (elim disjE) (auto simp: CLASS_COLORS_def)
qed


lemma create_svg_elements_ok:
  "(\<exists>els. create_svg_elements g m classes rooms teachers title free = Inr els) \<longleftrightarrow>
     (\<forall>p\<in>{1..8}. KInt p \<in> fst ` set classes \<and> KStr (py_str p) \<in> fst ` set rooms \<and>
        KStr (py_str p) \<in> fst ` set teachers)"
  unfolding create_svg_elements_def all_1_8
  by (simp add: bindE_ok draw_day_ok draw_xday_ok all_less_4 all_1_8 CLASS_COLORS_def) blast

text \<open>
  Claim C1 says that a period missing from the room table or from the teacher table is
  drawn as the empty string and never raises. With the label table complete and the room
  table empty, the first day column raises on its first room lookup.
\<close>

theorem missing_room_raises_counterexample:
  "draw_day shipped sample_metrics 0 0 [1, 3, 5, 7] classes_normalized [] TEACHERS
     = Inl (KeyError (KStr ''1''))"
  by code_simp

text \<open>
  Claim C1, amended. \<open>draw_day\<close> has no default for a missing room or teacher: for each
  of the four fixed patterns, the day column raises if and only if one of its periods is
  missing from the label table (under the integer), from the room table or from the
  teacher table (under the decimal string), and whatever it raises is a \<open>KeyError\<close>. The
  whole rendering raises if and only if one of the periods 1 to 8 is missing from one of
  the three tables.
\<close>

theorem render_raises_iff_period_missing:
  "(dc \<in> set DAY_PATTERNS \<longrightarrow>
      (isl (draw_day g m x y dc classes rooms teachers) \<longleftrightarrow>
         (\<exists>p\<in>set dc. KInt p \<notin> fst ` set classes \<or> KStr (py_str p) \<notin> fst ` set rooms \<or>
            KStr (py_str p) \<notin> fst ` set teachers)) \<and>
      (\<forall>e. draw_day g m x y dc classes rooms teachers = Inl e \<longrightarrow> (\<exists>k. e = KeyError k))) \<and>
   (isl (create_svg_elements g m classes rooms teachers title free) \<longleftrightarrow>
      (\<exists>p\<in>{1..8}. KInt p \<notin> fst ` set classes \<or> KStr (py_str p) \<notin> fst ` set rooms \<or>
         KStr (py_str p) \<notin> fst ` set teachers))"
proof (intro conjI impI)
  assume dc: "dc \<in> set DAY_PATTERNS"
  then show "isl (draw_day g m x y dc classes rooms teachers) \<longleftrightarrow>
         (\<exists>p\<in>set dc. KInt p \<notin> fst ` set classes \<or> KStr (py_str p) \<notin> fst ` set rooms \<or>
            KStr (py_str p) \<notin> fst ` set teachers)"
    by (rule draw_day_fixed_pattern_isl)
  from dc have "4 \<le> length dc" by (auto simp: DAY_PATTERNS_def)
  then show "\<forall>e. draw_day g m x y dc classes rooms teachers = Inl e \<longrightarrow> (\<exists>k. e = KeyError k)"
    by (rule key_errors_only_day)
next
  show "isl (create_svg_elements g m classes rooms teachers title free) \<longleftrightarrow>
      (\<exists>p\<in>{1..8}. KInt p \<notin> fst ` set classes \<or> KStr (py_str p) \<notin> fst ` set rooms \<or>
         KStr (py_str p) \<notin> fst ` set teachers)"
    unfolding isl_iff_no_result create_svg_elements_ok by blast
qed

theorem render_raises_iff_period_missing_witness:
  "[1, 3, 5, 7] \<in> set DAY_PATTERNS \<and>
   isl (draw_day shipped sample_metrics 0 0 [1, 3, 5, 7] classes_normalized [] TEACHERS) \<and>
   \<not> isl (draw_day shipped sample_metrics 0 0 [1, 3, 5, 7] classes_normalized ROOMS TEACHERS)"
proof -
  have h: "[1, 3, 5, 7] \<in> set DAY_PATTERNS" by (simp add: DAY_PATTERNS_def)
  have a: "\<exists>p\<in>set [1, 3, 5, 7::int]. KInt p \<notin> fst ` set classes_normalized \<or>
       KStr (py_str p) \<notin> fst ` set ([] :: string pydict) \<or> KStr (py_str p) \<notin> fst ` set TEACHERS"
    by auto
  have b: "\<not> (\<exists>p\<in>set [1, 3, 5, 7::int]. KInt p \<notin> fst ` set classes_normalized \<or>
       KStr (py_str p) \<notin> fst ` set ROOMS \<or> KStr (py_str p) \<notin> fst ` set TEACHERS)"
    by (simp add: classes_normalized_def ROOMS_def TEACHERS_def py_str_periods)
  from render_raises_iff_period_missing [of "[1, 3, 5, 7]" shipped sample_metrics 0 0
      classes_normalized "[]" TEACHERS] h a
  have 1: "isl (draw_day shipped sample_metrics 0 0 [1, 3, 5, 7] classes_normalized [] TEACHERS)"
    by blast
  from render_raises_iff_period_missing [of "[1, 3, 5, 7]" shipped sample_metrics 0 0
      classes_normalized ROOMS TEACHERS] h b
  have 2: "\<not> isl (draw_day shipped sample_metrics 0 0 [1, 3, 5, 7] classes_normalized ROOMS TEACHERS)"
    by blast
  from h 1 2 show ?thesis by blast
qed

lemma draw_day_period_room_missing:
  assumes "KInt p \<in> fst ` set classes" "KStr (py_str p) \<notin> fst ` set rooms"
  shows "draw_day_period m p classes rooms teachers xm y1 y2 ys yr yt
           = Inl (KeyError (KStr (py_str p)))"
proof -
  from assms(1) obtain l where l: "getitem classes (KInt p) = Inr l"
    unfolding getitem_ok [symmetric] by blast
  have r: "getitem rooms (KStr (py_str p)) = Inl (KeyError (KStr (py_str p)))"
    using assms(2) by (simp add: getitem_eq_Inl)
  show ?thesis
    unfolding draw_day_period_def Let_def fit_with_split_lines fit_second.case if_Inr l r
    by simp
qed

lemma draw_day_period_teacher_missing:
  assumes "KInt p \<in> fst ` set classes" "KStr (py_str p) \<in> fst ` set rooms"
    "KStr (py_str p) \<notin> fst ` set teachers"
  shows "draw_day_period m p classes rooms teachers xm y1 y2 ys yr yt
           = Inl (KeyError (KStr (py_str p)))"
proof -
  from assms(1) obtain l where l: "getitem classes (KInt p) = Inr l"
    unfolding getitem_ok [symmetric] by blast
  from assms(2) obtain r where r: "getitem rooms (KStr (py_str p)) = Inr r"
    unfolding getitem_ok [symmetric] by blast
  have t: "getitem teachers (KStr (py_str p)) = Inl (KeyError (KStr (py_str p)))"
    using assms(3) by (simp add: getitem_eq_Inl)
  show ?thesis
    unfolding draw_day_period_def Let_def fit_with_split_lines fit_second.case if_Inr l r t
    by simp
qed

lemma draw_day_first_period_raises:
  assumes dc: "dc \<in> set DAY_PATTERNS"
    and p: "\<And>xm y1 y2 ys yr yt.
       draw_day_period m (dc ! 0) classes rooms teachers xm y1 y2 ys yr yt = Inl e"
  shows "draw_day g m x y dc classes rooms teachers = Inl e"
  using dc unfolding day_patterns_cases
  by (elim disjE) (use p in \<open>simp_all add: draw_day_def Let_def index_list_def class_colors\<close>)

text \<open>
  Claim C9. A day column looks the class name up under the period number itself and the
  room and the teacher under \<open>str\<close> of the period number: when it returns, all three keys
  were present for each of its four periods. Consequently a room table, or a teacher table,
  all of whose keys are integers makes every day column raise, whatever entries it holds;
  with a fixed pattern and a complete label table what is raised is the \<open>KeyError\<close> of the
  string key of the first period.
\<close>

theorem day_column_lookup_keys:
  "(draw_day g m x y dc classes rooms teachers = Inr els \<longrightarrow>
      (\<forall>i<4. KInt (dc ! i) \<in> fst ` set classes \<and> KStr (py_str (dc ! i)) \<in> fst ` set rooms \<and>
         KStr (py_str (dc ! i)) \<in> fst ` set teachers)) \<and>
   (fst ` set rooms \<subseteq> range KInt \<or> fst ` set teachers \<subseteq> range KInt \<longrightarrow>
      isl (draw_day g m x y dc classes rooms teachers)) \<and>
   (dc \<in> set DAY_PATTERNS \<and> (\<forall>p\<in>set dc. KInt p \<in> fst ` set classes) \<and>
    fst ` set rooms \<subseteq> range KInt \<longrightarrow>
      draw_day g m x y dc classes rooms teachers = Inl (KeyError (KStr (py_str (dc ! 0))))) \<and>
   (dc \<in> set DAY_PATTERNS \<and> (\<forall>p\<in>set dc. KInt p \<in> fst ` set classes) \<and>
    KStr (py_str (dc ! 0)) \<in> fst ` set rooms \<and> fst ` set teachers \<subseteq> range KInt \<longrightarrow>
      draw_day g m x y dc classes rooms teachers = Inl (KeyError (KStr (py_str (dc ! 0)))))"
proof (intro conjI impI)
  assume "draw_day g m x y dc classes rooms teachers = Inr els"
  then have "\<exists>els. draw_day g m x y dc classes rooms teachers = Inr els" ..
  then show "\<forall>i<4. KInt (dc ! i) \<in> fst ` set classes \<and> KStr (py_str (dc ! i)) \<in> fst ` set rooms \<and>
         KStr (py_str (dc ! i)) \<in> fst ` set teachers"
    unfolding draw_day_ok by blast
next
  assume a: "fst ` set rooms \<subseteq> range KInt \<or> fst ` set teachers \<subseteq> range KInt"
  have "KStr (py_str (dc ! 0)) \<notin> fst ` set rooms \<or> KStr (py_str (dc ! 0)) \<notin> fst ` set teachers"
    using a by auto
  then have "\<exists>i<4::nat. KInt (dc ! i) \<notin> fst ` set CLASS_COLORS \<or> KInt (dc ! i) \<notin> fst ` set classes \<or>
        KStr (py_str (dc ! i)) \<notin> fst ` set rooms \<or> KStr (py_str (dc ! i)) \<notin> fst ` set teachers"
    by (intro exI [of _ 0]) auto
  then show "isl (draw_day g m x y dc classes rooms teachers)"
    unfolding draw_day_isl by blast
next
  assume a: "dc \<in> set DAY_PATTERNS \<and> (\<forall>p\<in>set dc. KInt p \<in> fst ` set classes) \<and>
    fst ` set rooms \<subseteq> range KInt"
  then have "dc ! 0 \<in> set dc" by (auto simp: DAY_PATTERNS_def)
  with a have "KInt (dc ! 0) \<in> fst ` set classes" by blast
  moreover have "KStr (py_str (dc ! 0)) \<notin> fst ` set rooms" using a by auto
  ultimately show "draw_day g m x y dc classes rooms teachers = Inl (KeyError (KStr (py_str (dc ! 0))))"
    using a by (intro draw_day_first_period_raises draw_day_period_room_missing) simp_all
next
  assume a: "dc \<in> set DAY_PATTERNS \<and> (\<forall>p\<in>set dc. KInt p \<in> fst ` set classes) \<and>
    KStr (py_str (dc ! 0)) \<in> fst ` set rooms \<and> fst ` set teachers \<subseteq> range KInt"
  then have "dc ! 0 \<in> set dc" by (auto simp: DAY_PATTERNS_def)
  with a have "KInt (dc ! 0) \<in> fst ` set classes" by blast
  moreover have "KStr (py_str (dc ! 0)) \<notin> fst ` set teachers" using a by auto
  ultimately show "draw_day g m x y dc classes rooms teachers = Inl (KeyError (KStr (py_str (dc ! 0))))"
    using a by (intro draw_day_first_period_raises draw_day_period_teacher_missing) simp_all
qed

theorem day_column_lookup_keys_witness:
  "[1, 3, 5, 7] \<in> set DAY_PATTERNS \<and>
   KInt ` set [1, 3, 5, 7] \<subseteq> fst ` set classes_normalized \<and>
   fst ` set rooms_keyed_by_int \<subseteq> range KInt \<and>
   draw_day shipped sample_metrics 0 0 [1, 3, 5, 7] classes_normalized rooms_keyed_by_int TEACHERS
     = Inl (KeyError (KStr ''1'')) \<and>
   (\<exists>els. draw_day shipped sample_metrics 0 0 [1, 3, 5, 7] classes_normalized ROOMS TEACHERS
            = Inr els) \<and>
   KInt 5 \<in> fst ` set classes_normalized \<and> KStr ''5'' \<in> fst ` set ROOMS \<and>
   KStr ''5'' \<in> fst ` set TEACHERS"
proof -
  have h1: "[1, 3, 5, 7] \<in> set DAY_PATTERNS" by (simp add: DAY_PATTERNS_def)
  have h2: "\<forall>p\<in>set [1, 3, 5, 7]. KInt p \<in> fst ` set classes_normalized"
    by (simp add: classes_normalized_def)
  have h3: "fst ` set rooms_keyed_by_int \<subseteq> range KInt"
    by (simp add: rooms_keyed_by_int_def)
  have ok: "draw_day shipped sample_metrics 0 0 [1, 3, 5, 7] classes_normalized ROOMS TEACHERS
      = Inr (projr (draw_day shipped sample_metrics 0 0 [1, 3, 5, 7] classes_normalized ROOMS TEACHERS))"
    using draw_day_ok [of shipped sample_metrics 0 0 "[1, 3, 5, 7]" classes_normalized ROOMS TEACHERS]
    by (auto simp: all_less_4 classes_normalized_def ROOMS_def TEACHERS_def CLASS_COLORS_def
        py_str_periods)
  from day_column_lookup_keys [where g = shipped and m = sample_metrics and x = 0 and y = 0
      and dc = "[1, 3, 5, 7]" and classes = classes_normalized and rooms = rooms_keyed_by_int
      and teachers = TEACHERS] h1 h2 h3
  have 1: "draw_day shipped sample_metrics 0 0 [1, 3, 5, 7] classes_normalized rooms_keyed_by_int
      TEACHERS = Inl (KeyError (KStr ''1''))"
    by (simp add: py_str_periods)
  from day_column_lookup_keys [where g = shipped and m = sample_metrics and x = 0 and y = 0
      and dc = "[1, 3, 5, 7]" and classes = classes_normalized and rooms = ROOMS
      and teachers = TEACHERS, THEN conjunct1, rule_format, OF ok, of 2]
  have 2: "KInt 5 \<in> fst ` set classes_normalized \<and> KStr ''5'' \<in> fst ` set ROOMS \<and>
     KStr ''5'' \<in> fst ` set TEACHERS"
    by (simp add: py_str_periods)
  from h2 have h2': "KInt ` set [1, 3, 5, 7] \<subseteq> fst ` set classes_normalized" by blast
  from h1 h2' h3 1 2 ok show ?thesis by blast
qed

section \<open>The bands of the X-day column\<close>






section \<open>The free-period name\<close>

lemma py_contains_iff: "py_contains needle hay \<longleftrightarrow> (\<exists>a b. hay = a @ needle @ b)"
proof (induction hay)
  case Nil
  show ?case by auto
next
  case (Cons c cs)
  show ?case
  proof
    assume "py_contains needle (c # cs)"
    then consider "take (length needle) (c # cs) = needle" | "py_contains needle cs" by auto
    then show "\<exists>a b. c # cs = a @ needle @ b"
    proof cases
      case 1
      then have "c # cs = [] @ needle @ drop (length needle) (c # cs)"
        by (metis append_Nil append_take_drop_id)
      then show ?thesis by blast
    next
      case 2
      with Cons.IH obtain a b where "cs = a @ needle @ b" by blast
      then have "c # cs = (c # a) @ needle @ b" by simp
      then show ?thesis by blast
    qed
  next
    assume "\<exists>a b. c # cs = a @ needle @ b"
    then obtain a b where ab: "c # cs = a @ needle @ b" by blast
    show "py_contains needle (c # cs)"
    proof (cases a)
      case Nil
      with ab have "take (length needle) (c # cs) = needle" by simp
      then show ?thesis by simp
    next
      case (Cons a0 a')
      with ab have "cs = a' @ needle @ b" by simp
      with Cons.IH have "py_contains needle cs" by blast
      then show ?thesis by simp
    qed
  qed
qed

lemma day_label_lines_no_space: "CHR '' '' \<notin> set l \<Longrightarrow> day_label_lines m l = [l]"
  by (simp add: day_label_lines_def)

lemma day_label_lines_fits:
  "m l BASE_CLASS_TEXT_SIZE \<le> real_of_int (WIDTH - 20) \<Longrightarrow> day_label_lines m l = [l]"
  by (simp add: day_label_lines_def)

lemma xday_label_position:
  assumes x: "draw_xday g m x y classes free = Inr xday"
    and k: "k \<in> {1..8}" and l: "getitem classes (KInt k) = Inr l"
  shows "texts xday ! ([1, 3, 6, 8, 11, 15, 17, 20] ! nat (k - 1)) = rename_foundations free l"
proof -
  from draw_xday_texts [OF x] obtain l1 l2 l3 l4 l5 l6 l7 l8 where
    ls: "getitem classes (KInt 1) = Inr l1" "getitem classes (KInt 2) = Inr l2"
      "getitem classes (KInt 3) = Inr l3" "getitem classes (KInt 4) = Inr l4"
      "getitem classes (KInt 5) = Inr l5" "getitem classes (KInt 6) = Inr l6"
      "getitem classes (KInt 7) = Inr l7" "getitem classes (KInt 8) = Inr l8" and
    t: "texts xday =
       [''Office Hours'',
        rename_foundations free l1, ''8:30 - 9:10 a.m.'',
        rename_foundations free l2, ''9:15 - 9:55 a.m.'',
        ''Break 9:55 - 10:05 a.m.'',
        rename_foundations free l3, ''10:05 - 10:45 a.m.'',
        rename_foundations free l4, ''10:50 - 11:30 a.m.'',
        ''Break 11:30 - 11:40 a.m.'',
        rename_foundations free l5, ''11:40 a.m. - 12:20 p.m.'',
        ''Lunch'', ''12:20 - 1:00 p.m.'',
        rename_foundations free l6, ''1:00 - 1:40 p.m.'',
        rename_foundations free l7, ''1:45 - 2:25 p.m.'',
        ''Break 2:25 - 2:35 p.m.'',
        rename_foundations free l8, ''2:35 - 3:15 p.m.'']"
    by (elim exE conjE) simp
  from k have "k = 1 \<or> k = 2 \<or> k = 3 \<or> k = 4 \<or> k = 5 \<or> k = 6 \<or> k = 7 \<or> k = 8" by auto
  then show ?thesis
    using l ls unfolding t by (elim disjE) simp_all
qed

lemma foundations_example_labels:
  "getitem classes_foundations (KInt 1) = Inr ''A''"
  "getitem classes_foundations (KInt 3) = Inr ''C''"
  "getitem classes_foundations (KInt 5) = Inr ''Foundations (H)''"
  "getitem classes_foundations (KInt 7) = Inr ''G''"
  by (simp_all add: getitem_def classes_foundations_def)

lemma foundations_example_day1:
  assumes fits: "m ''Foundations (H)'' BASE_CLASS_TEXT_SIZE \<le> real_of_int (WIDTH - 20)"
    and d: "draw_day g m x y [1, 3, 5, 7] classes_foundations rooms teachers = Inr day"
  shows "texts day ! 6 = ''Foundations (H)''"
proof -
  from draw_day_texts [OF d] obtain r0 t0 r1 t1 r2 t2 r3 t3 where
    "texts day = day_label_lines m ''A'' @ [r0, t0] @ day_label_lines m ''C'' @ [r1, t1]
               @ day_label_lines m ''Foundations (H)'' @ [r2, t2]
               @ day_label_lines m ''G'' @ [r3, t3]"
    by (elim exE conjE) (simp add: foundations_example_labels)
  then show ?thesis
    using day_label_lines_fits [of m "''Foundations (H)''"] fits
    by (simp add: day_label_lines_no_space)
qed

lemma foundations_example_day3:
  assumes fits: "m ''Foundations (H)'' BASE_CLASS_TEXT_SIZE \<le> real_of_int (WIDTH - 20)"
    and d: "draw_day g m x y [3, 1, 7, 5] classes_foundations rooms teachers = Inr day"
  shows "texts day ! 9 = ''Foundations (H)''"
proof -
  from draw_day_texts [OF d] obtain r0 t0 r1 t1 r2 t2 r3 t3 where
    "texts day = day_label_lines m ''C'' @ [r0, t0] @ day_label_lines m ''A'' @ [r1, t1]
               @ day_label_lines m ''G'' @ [r2, t2]
               @ day_label_lines m ''Foundations (H)'' @ [r3, t3]"
    by (elim exE conjE) (simp add: foundations_example_labels)
  then show ?thesis
    using day_label_lines_fits [of m "''Foundations (H)''"] fits
    by (simp add: day_label_lines_no_space)
qed

lemma foundations_example_xday:
  "\<exists>xday. draw_xday g m x y classes_foundations ''Study Period'' = Inr xday \<and>
     texts xday ! 11 = ''Study Period''"
proof -
  have "\<forall>k\<in>{1..8}. KInt k \<in> fst ` set classes_foundations"
    unfolding all_1_8 by (simp add: classes_foundations_def)
  then obtain xday where x: "draw_xday g m x y classes_foundations ''Study Period'' = Inr xday"
    using draw_xday_ok [of g m x y classes_foundations "''Study Period''"] by blast
  from xday_label_position [OF x, of 5 "''Foundations (H)''"]
  have "texts xday ! 11 = ''Study Period''"
    by (simp add: foundations_example_labels rename_foundations_def)
  with x show ?thesis by blast
qed


text \<open>
  Claim C6. The test for \<open>Foundations\<close> is the substring test on characters, hence
  case-sensitive. In the X-day column the text of period \<open>k\<close> (the texts of the column
  at positions 1, 3, 6, 8, 11, 15, 17 and 20 are the eight class names) is the free-period
  name when the label of \<open>k\<close> contains \<open>Foundations\<close>, and the label otherwise. A day
  column takes no free-period name: it writes each label of its pattern as it stands in
  the table, on one line when the label fits at the base size or has no space and on the
  two lines of its split otherwise, followed by the room and the teacher. For the example
  table with \<open>Foundations (H)\<close> in period 5 and the name \<open>Study Period\<close>, the X-day text
  of period 5 is \<open>Study Period\<close>, and in Day 1 and Day 3, the day columns that show
  period 5, its text is \<open>Foundations (H)\<close> in every font in which that label is at most
  430 wide at size 50.
\<close>

theorem foundations_renamed_in_xday_column_only:
  "(py_contains ''Foundations'' l \<longleftrightarrow> (\<exists>a b. l = a @ ''Foundations'' @ b)) \<and>
   (draw_xday g m x y classes free = Inr xday \<and> k \<in> {1..8} \<and>
    getitem classes (KInt k) = Inr l \<longrightarrow>
      texts xday ! ([1, 3, 6, 8, 11, 15, 17, 20] ! nat (k - 1))
        = (if py_contains ''Foundations'' l then free else l)) \<and>
   (draw_day g m x' y' dc classes rooms teachers = Inr day \<longrightarrow>
      (\<exists>l0 r0 t0 l1 r1 t1 l2 r2 t2 l3 r3 t3.
         getitem classes (KInt (dc ! 0)) = Inr l0 \<and>
         getitem rooms (KStr (py_str (dc ! 0))) = Inr r0 \<and>
         getitem teachers (KStr (py_str (dc ! 0))) = Inr t0 \<and>
         getitem classes (KInt (dc ! 1)) = Inr l1 \<and>
         getitem rooms (KStr (py_str (dc ! 1))) = Inr r1 \<and>
         getitem teachers (KStr (py_str (dc ! 1))) = Inr t1 \<and>
         getitem classes (KInt (dc ! 2)) = Inr l2 \<and>
         getitem rooms (KStr (py_str (dc ! 2))) = Inr r2 \<and>
         getitem teachers (KStr (py_str (dc ! 2))) = Inr t2 \<and>
         getitem classes (KInt (dc ! 3)) = Inr l3 \<and>
         getitem rooms (KStr (py_str (dc ! 3))) = Inr r3 \<and>
         getitem teachers (KStr (py_str (dc ! 3))) = Inr t3 \<and>
         texts day = day_label_lines m l0 @ [r0, t0] @ day_label_lines m l1 @ [r1, t1]
                   @ day_label_lines m l2 @ [r2, t2] @ day_label_lines m l3 @ [r3, t3])) \<and>
   (\<exists>xday. draw_xday g m x y classes_foundations ''Study Period'' = Inr xday \<and>
      texts xday ! 11 = ''Study Period'') \<and>
   (m ''Foundations (H)'' BASE_CLASS_TEXT_SIZE \<le> real_of_int (WIDTH - 20) \<and>
    draw_day g m x' y' [1, 3, 5, 7] classes_foundations rooms teachers = Inr day_a \<longrightarrow>
      texts day_a ! 6 = ''Foundations (H)'') \<and>
   (m ''Foundations (H)'' BASE_CLASS_TEXT_SIZE \<le> real_of_int (WIDTH - 20) \<and>
    draw_day g m x' y' [3, 1, 7, 5] classes_foundations rooms teachers = Inr day_c \<longrightarrow>
      texts day_c ! 9 = ''Foundations (H)'')"
proof (intro conjI impI)
  show "py_contains ''Foundations'' l \<longleftrightarrow> (\<exists>a b. l = a @ ''Foundations'' @ b)"
    by (rule py_contains_iff)
next
  assume "draw_xday g m x y classes free = Inr xday \<and> k \<in> {1..8} \<and>
    getitem classes (KInt k) = Inr l"
  then show "texts xday ! ([1, 3, 6, 8, 11, 15, 17, 20] ! nat (k - 1))
        = (if py_contains ''Foundations'' l then free else l)"
    using xday_label_position [of g m x y classes free xday k l]
    by (simp add: rename_foundations_def)
next
  assume "draw_day g m x' y' dc classes rooms teachers = Inr day"
  then show "\<exists>l0 r0 t0 l1 r1 t1 l2 r2 t2 l3 r3 t3.
         getitem classes (KInt (dc ! 0)) = Inr l0 \<and>
         getitem rooms (KStr (py_str (dc ! 0))) = Inr r0 \<and>
         getitem teachers (KStr (py_str (dc ! 0))) = Inr t0 \<and>
         getitem classes (KInt (dc ! 1)) = Inr l1 \<and>
         getitem rooms (KStr (py_str (dc ! 1))) = Inr r1 \<and>
         getitem teachers (KStr (py_str (dc ! 1))) = Inr t1 \<and>
         getitem classes (KInt (dc ! 2)) = Inr l2 \<and>
         getitem rooms (KStr (py_str (dc ! 2))) = Inr r2 \<and>
         getitem teachers (KStr (py_str (dc ! 2))) = Inr t2 \<and>
         getitem classes (KInt (dc ! 3)) = Inr l3 \<and>
         getitem rooms (KStr (py_str (dc ! 3))) = Inr r3 \<and>
         getitem teachers (KStr (py_str (dc ! 3))) = Inr t3 \<and>
         texts day = day_label_lines m l0 @ [r0, t0] @ day_label_lines m l1 @ [r1, t1]
                   @ day_label_lines m l2 @ [r2, t2] @ day_label_lines m l3 @ [r3, t3]"
    by (rule draw_day_texts)
next
  show "\<exists>xday. draw_xday g m x y classes_foundations ''Study Period'' = Inr xday \<and>
      texts xday ! 11 = ''Study Period''"
    by (rule foundations_example_xday)
next
  assume "m ''Foundations (H)'' BASE_CLASS_TEXT_SIZE \<le> real_of_int (WIDTH - 20) \<and>
    draw_day g m x' y' [1, 3, 5, 7] classes_foundations rooms teachers = Inr day_a"
  then show "texts day_a ! 6 = ''Foundations (H)''"
    using foundations_example_day1 by blast
next
  assume "m ''Foundations (H)'' BASE_CLASS_TEXT_SIZE \<le> real_of_int (WIDTH - 20) \<and>
    draw_day g m x' y' [3, 1, 7, 5] classes_foundations rooms teachers = Inr day_c"
  then show "texts day_c ! 9 = ''Foundations (H)''"
    using foundations_example_day3 by blast
qed

theorem foundations_renamed_in_xday_column_only_witness:
  "sample_metrics ''Foundations (H)'' BASE_CLASS_TEXT_SIZE \<le> real_of_int (WIDTH - 20) \<and>
   (5::int) \<in> {1..8} \<and> getitem classes_foundations (KInt 5) = Inr ''Foundations (H)'' \<and>
   (\<exists>xday day_a day_c.
      draw_xday shipped sample_metrics 0 0 classes_foundations ''Study Period'' = Inr xday \<and>
      texts xday ! 11 = ''Study Period'' \<and>
      draw_day shipped sample_metrics 0 0 [1, 3, 5, 7] classes_foundations ROOMS TEACHERS
        = Inr day_a \<and>
      texts day_a ! 6 = ''Foundations (H)'' \<and>
      draw_day shipped sample_metrics 0 0 [3, 1, 7, 5] classes_foundations ROOMS TEACHERS
        = Inr day_c \<and>
      texts day_c ! 9 = ''Foundations (H)'')"
proof -
  have fits: "sample_metrics ''Foundations (H)'' BASE_CLASS_TEXT_SIZE \<le> real_of_int (WIDTH - 20)"
    by (simp add: sample_metrics_def BASE_CLASS_TEXT_SIZE_def WIDTH_def)
  have k: "(5::int) \<in> {1..8}" by simp
  have l: "getitem classes_foundations (KInt 5) = Inr ''Foundations (H)''"
    by (rule foundations_example_labels)
  have keys: "\<forall>k\<in>{1..8}. KInt k \<in> fst ` set classes_foundations"
    unfolding all_1_8 by (simp add: classes_foundations_def)
  obtain xday where x:
    "draw_xday shipped sample_metrics 0 0 classes_foundations ''Study Period'' = Inr xday"
    using keys draw_xday_ok [of shipped sample_metrics 0 0 classes_foundations "''Study Period''"]
    by blast
  obtain day_a where d1:
    "draw_day shipped sample_metrics 0 0 [1, 3, 5, 7] classes_foundations ROOMS TEACHERS = Inr day_a"
    using draw_day_ok [of shipped sample_metrics 0 0 "[1, 3, 5, 7]" classes_foundations
        ROOMS TEACHERS]
    by (auto simp: all_less_4 classes_foundations_def ROOMS_def TEACHERS_def CLASS_COLORS_def
        py_str_periods)
  obtain day_c where d3:
    "draw_day shipped sample_metrics 0 0 [3, 1, 7, 5] classes_foundations ROOMS TEACHERS = Inr day_c"
    using draw_day_ok [of shipped sample_metrics 0 0 "[3, 1, 7, 5]" classes_foundations
        ROOMS TEACHERS]
    by (auto simp: all_less_4 classes_foundations_def ROOMS_def TEACHERS_def CLASS_COLORS_def
        py_str_periods)
  note inst = foundations_renamed_in_xday_column_only [where g = shipped and m = sample_metrics
      and x = 0 and y = 0 and x' = 0 and y' = 0 and classes = classes_foundations
      and free = "''Study Period''" and xday = xday and k = 5 and l = "''Foundations (H)''"
      and rooms = ROOMS and teachers = TEACHERS and day_a = day_a and day_c = day_c]
  have c: "py_contains ''Foundations'' ''Foundations (H)''" by code_simp
  from inst [THEN conjunct2, THEN conjunct1] x k l c
  have 1: "texts xday ! 11 = ''Study Period''" by simp
  from inst fits d1 have 2: "texts day_a ! 6 = ''Foundations (H)''" by blast
  from inst fits d3 have 3: "texts day_c ! 9 = ''Foundations (H)''" by blast
  from fits k l x d1 d3 1 2 3 show ?thesis by blast
qed

section \<open>The size search of the text fitter\<close>











section \<open>The normalizer\<close>















end
